theory Spec2Isabelle
  imports Main "HOL-Library.Word"
begin

unbundle bit_operations_syntax

section \<open>Data model of qspi.c\<close>

type_synonym u8 = "8 word"
type_synonym u32 = "32 word"

text \<open>
  The status every HAL call and every function of qspi.c returns. The enumeration is the
  HAL's (\<^verbatim>\<open>HAL_OK = 0\<close>, \<^verbatim>\<open>HAL_ERROR\<close>, \<^verbatim>\<open>HAL_BUSY\<close>, \<^verbatim>\<open>HAL_TIMEOUT\<close>); qspi.c only ever
  writes \<^verbatim>\<open>HAL_OK\<close>, \<^verbatim>\<open>HAL_ERROR\<close> and \<^verbatim>\<open>HAL_TIMEOUT\<close> itself.
\<close>

datatype HAL_StatusTypeDef = HAL_OK | HAL_ERROR | HAL_BUSY | HAL_TIMEOUT

text \<open>
  The mode fields of \<^verbatim>\<open>QSPI_CommandTypeDef\<close>. Each is an enumeration of the HAL whose
  first member is the value 0, which is what \<^verbatim>\<open>QSPI_CommandTypeDef cmd = {0}\<close> leaves in a
  field the code does not assign.
\<close>

datatype instruction_mode =
  QSPI_INSTRUCTION_NONE | QSPI_INSTRUCTION_1_LINE | QSPI_INSTRUCTION_2_LINES | QSPI_INSTRUCTION_4_LINES

datatype address_mode =
  QSPI_ADDRESS_NONE | QSPI_ADDRESS_1_LINE | QSPI_ADDRESS_2_LINES | QSPI_ADDRESS_4_LINES

datatype address_size =
  QSPI_ADDRESS_8_BITS | QSPI_ADDRESS_16_BITS | QSPI_ADDRESS_24_BITS | QSPI_ADDRESS_32_BITS

datatype alternate_byte_mode =
  QSPI_ALTERNATE_BYTES_NONE | QSPI_ALTERNATE_BYTES_1_LINE | QSPI_ALTERNATE_BYTES_2_LINES
  | QSPI_ALTERNATE_BYTES_4_LINES

datatype data_mode =
  QSPI_DATA_NONE | QSPI_DATA_1_LINE | QSPI_DATA_2_LINES | QSPI_DATA_4_LINES

datatype sioo_mode = QSPI_SIOO_INST_EVERY_CMD | QSPI_SIOO_INST_ONLY_FIRST_CMD

text \<open>
  The command descriptor, with the fields qspi.c assigns. The remaining fields of the HAL
  structure (alternate bytes and DDR settings) are zeroed by \<^verbatim>\<open>{0}\<close> and never touched.
\<close>

record QSPI_CommandTypeDef =
  Instruction :: u32
  Address :: u32
  AddressSize :: address_size
  DummyCycles :: u32
  InstructionMode :: instruction_mode
  AddressMode :: address_mode
  AlternateByteMode :: alternate_byte_mode
  DataMode :: data_mode
  NbData :: u32
  SIOOMode :: sioo_mode

text \<open>\<^verbatim>\<open>QSPI_CommandTypeDef cmd = {0};\<close>\<close>

definition cmd_zero :: QSPI_CommandTypeDef where
  "cmd_zero = \<lparr>Instruction = 0, Address = 0, AddressSize = QSPI_ADDRESS_8_BITS,
     DummyCycles = 0, InstructionMode = QSPI_INSTRUCTION_NONE,
     AddressMode = QSPI_ADDRESS_NONE, AlternateByteMode = QSPI_ALTERNATE_BYTES_NONE,
     DataMode = QSPI_DATA_NONE, NbData = 0, SIOOMode = QSPI_SIOO_INST_EVERY_CMD\<rparr>"

text \<open>
  What qspi.c takes from outside: the constants of qspi.h whose values neither the sources
  nor the specification give, and the HAL functions it calls. \<open>'d\<close> is the state of
  everything behind the HAL (the QUADSPI peripheral, the flash device, the SysTick counter);
  every HAL function is a deterministic function of that state. \<^verbatim>\<open>HAL_QSPI_Receive\<close> reports
  the bytes that arrive as a function of their offset; the caller stores as many as the
  command announced.
\<close>

record 'd platform =
  CMD_RESET_ENABLE :: u8
  CMD_RESET_MEMORY :: u8
  CMD_READ_ID :: u8
  CMD_READ_STATUS_REG :: u8
  CMD_WRITE_ENABLE :: u8
  QSPI_TIMEOUT :: u32
  HAL_QSPI_Command :: "'d \<Rightarrow> QSPI_CommandTypeDef \<Rightarrow> u32 \<Rightarrow> HAL_StatusTypeDef \<times> 'd"
  HAL_QSPI_Receive :: "'d \<Rightarrow> u32 \<Rightarrow> HAL_StatusTypeDef \<times> (nat \<Rightarrow> u8) \<times> 'd"
  HAL_QSPI_Transmit :: "'d \<Rightarrow> u8 list \<Rightarrow> u32 \<Rightarrow> HAL_StatusTypeDef \<times> 'd"
  HAL_GetTick :: "'d \<Rightarrow> u32 \<times> 'd"
  HAL_Delay :: "'d \<Rightarrow> u32 \<Rightarrow> 'd"

text \<open>The opcodes the comments of qspi.c give.\<close>

definition CMD_ENABLE_4BYTE_ADDR :: u8 where
  "CMD_ENABLE_4BYTE_ADDR = 0xB7"

definition CMD_SUBSECTOR_ERASE_4K_4B :: u8 where
  "CMD_SUBSECTOR_ERASE_4K_4B = 0x21"

definition CMD_PAGE_PROGRAM_4B :: u8 where
  "CMD_PAGE_PROGRAM_4B = 0x12"

definition CMD_READ_DATA_4B :: u8 where
  "CMD_READ_DATA_4B = 0x13"

text \<open>
  Modelled from the spec: the macros \<^verbatim>\<open>SR_WIP_MASK\<close>, \<^verbatim>\<open>SR_WEL_MASK\<close>, \<^verbatim>\<open>TEST_ADDR\<close> and
  \<^verbatim>\<open>TEST_PAGE_SIZE\<close> of qspi.h, which is not among the sources. The specification puts WIP
  in bit 0 and WEL in bit 1 of the status register, the test region at address 0x00001000
  and the page size at 256 bytes.
\<close>

definition SR_WIP_MASK :: u8 where
  "SR_WIP_MASK = 0x01"

definition SR_WEL_MASK :: u8 where
  "SR_WEL_MASK = 0x02"

definition TEST_ADDR :: u32 where
  "TEST_ADDR = 0x00001000"

definition TEST_PAGE_SIZE :: u32 where
  "TEST_PAGE_SIZE = 256"

text \<open>What the program does to the outside, oldest first: HAL bus calls and console lines.\<close>

datatype bus_event =
  BusCommand QSPI_CommandTypeDef HAL_StatusTypeDef
  | BusReceive "u8 list" HAL_StatusTypeDef
  | BusTransmit "u8 list" HAL_StatusTypeDef

text \<open>One constructor for each \<^verbatim>\<open>printf\<close> of the self-test, with its arguments.\<close>

datatype report =
  SelfTestStart
  | ResetFailed
  | ReadIDFailed
  | JedecID u8 u8 u8
  | Enter4ByteFailed
  | BusyAfter4B
  | Erasing u32
  | EraseFailed
  | EraseTimeout
  | ReadAfterEraseFailed
  | EraseVerifyFailed nat u8
  | EraseOK
  | Programming u32 u32
  | ProgramFailed
  | ProgramTimeout
  | ReadAfterProgramFailed
  | VerifyMismatch nat u8 u8
  | ProgramVerifyOK

record 'd world =
  dev :: 'd
  bus :: "bus_event list"
  console :: "report list"

section \<open>Calls into the HAL\<close>

definition call_Command ::
  "'d platform \<Rightarrow> QSPI_CommandTypeDef \<Rightarrow> 'd world \<Rightarrow> HAL_StatusTypeDef \<times> 'd world" where
  "call_Command p cmd w =
     (case HAL_QSPI_Command p (dev w) cmd (QSPI_TIMEOUT p) of
        (st, d') \<Rightarrow> (st, w\<lparr>dev := d', bus := bus w @ [BusCommand cmd st]\<rparr>))"

text \<open>
  \<^verbatim>\<open>HAL_QSPI_Receive(&hqspi, buf, QSPI_TIMEOUT)\<close> after a command that announced \<open>n\<close> bytes:
  the first \<open>n\<close> bytes of the caller's buffer are overwritten. No caller reads the buffer
  when the status is not \<^verbatim>\<open>HAL_OK\<close>.
\<close>

definition call_Receive ::
  "'d platform \<Rightarrow> nat \<Rightarrow> u8 list \<Rightarrow> 'd world \<Rightarrow> HAL_StatusTypeDef \<times> u8 list \<times> 'd world" where
  "call_Receive p n buf w =
     (case HAL_QSPI_Receive p (dev w) (QSPI_TIMEOUT p) of
        (st, rx, d') \<Rightarrow>
          (st, map rx [0..<n] @ drop n buf,
           w\<lparr>dev := d', bus := bus w @ [BusReceive (map rx [0..<n]) st]\<rparr>))"

text \<open>
  \<^verbatim>\<open>HAL_QSPI_Transmit(&hqspi, data, QSPI_TIMEOUT)\<close> after a command that announced \<open>n\<close>
  bytes: the first \<open>n\<close> bytes at \<open>data\<close> go out.
\<close>

definition call_Transmit ::
  "'d platform \<Rightarrow> nat \<Rightarrow> u8 list \<Rightarrow> 'd world \<Rightarrow> HAL_StatusTypeDef \<times> 'd world" where
  "call_Transmit p n data w =
     (case HAL_QSPI_Transmit p (dev w) (take n data) (QSPI_TIMEOUT p) of
        (st, d') \<Rightarrow> (st, w\<lparr>dev := d', bus := bus w @ [BusTransmit (take n data) st]\<rparr>))"

definition call_GetTick :: "'d platform \<Rightarrow> 'd world \<Rightarrow> u32 \<times> 'd world" where
  "call_GetTick p w = (case HAL_GetTick p (dev w) of (t, d') \<Rightarrow> (t, w\<lparr>dev := d'\<rparr>))"

definition call_Delay :: "'d platform \<Rightarrow> u32 \<Rightarrow> 'd world \<Rightarrow> 'd world" where
  "call_Delay p ms w = w\<lparr>dev := HAL_Delay p (dev w) ms\<rparr>"

definition printf :: "report \<Rightarrow> 'd world \<Rightarrow> 'd world" where
  "printf r w = w\<lparr>console := console w @ [r]\<rparr>"

section \<open>Low-level helpers\<close>

definition simple_cmd :: "u8 \<Rightarrow> QSPI_CommandTypeDef" where
  "simple_cmd instruction =
     cmd_zero\<lparr>InstructionMode := QSPI_INSTRUCTION_1_LINE,
              Instruction := ucast instruction,
              AddressMode := QSPI_ADDRESS_NONE,
              DataMode := QSPI_DATA_NONE,
              DummyCycles := 0,
              SIOOMode := QSPI_SIOO_INST_EVERY_CMD,
              AlternateByteMode := QSPI_ALTERNATE_BYTES_NONE\<rparr>"

definition QSPI_SendSimple ::
  "'d platform \<Rightarrow> u8 \<Rightarrow> 'd world \<Rightarrow> HAL_StatusTypeDef \<times> 'd world" where
  "QSPI_SendSimple p instruction w = call_Command p (simple_cmd instruction) w"

definition read_status_cmd :: "'d platform \<Rightarrow> QSPI_CommandTypeDef" where
  "read_status_cmd p =
     cmd_zero\<lparr>InstructionMode := QSPI_INSTRUCTION_1_LINE,
              Instruction := ucast (CMD_READ_STATUS_REG p),
              AddressMode := QSPI_ADDRESS_NONE,
              DataMode := QSPI_DATA_1_LINE,
              NbData := 1,
              DummyCycles := 0,
              SIOOMode := QSPI_SIOO_INST_EVERY_CMD\<rparr>"

text \<open>\<open>sr\<close> is the byte \<^verbatim>\<open>*sr\<close> holds on entry; the result carries the byte it holds on exit.\<close>

definition QSPI_ReadStatus ::
  "'d platform \<Rightarrow> u8 \<Rightarrow> 'd world \<Rightarrow> HAL_StatusTypeDef \<times> u8 \<times> 'd world" where
  "QSPI_ReadStatus p sr w =
     (case call_Command p (read_status_cmd p) w of
        (st, w1) \<Rightarrow>
          if st \<noteq> HAL_OK then (HAL_ERROR, sr, w1)
          else (case call_Receive p 1 [sr] w1 of (st2, buf, w2) \<Rightarrow> (st2, hd buf, w2)))"

text \<open>
  The \<^verbatim>\<open>do { ... } while ((HAL_GetTick() - start) < timeout_ms)\<close> loop of
  \<^verbatim>\<open>QSPI_WaitWhileBusy\<close>. It need not end (a tick counter that stands still, a WIP bit
  that stays set): \<open>None\<close> is the run that never returns.
\<close>

partial_function (option) WaitWhileBusy_loop ::
  "'d platform \<Rightarrow> u32 \<Rightarrow> u32 \<Rightarrow> u8 \<Rightarrow> 'd world \<Rightarrow> (HAL_StatusTypeDef \<times> 'd world) option" where
  "WaitWhileBusy_loop p timeout_ms start sr w =
     (case QSPI_ReadStatus p sr w of
        (st, sr', w1) \<Rightarrow>
          if st \<noteq> HAL_OK then Some (HAL_ERROR, w1)
          else if sr' AND SR_WIP_MASK = 0 then Some (HAL_OK, w1)
          else (case call_GetTick p w1 of
                  (now, w2) \<Rightarrow>
                    if now - start < timeout_ms then WaitWhileBusy_loop p timeout_ms start sr' w2
                    else Some (HAL_TIMEOUT, w2)))"

definition QSPI_WaitWhileBusy ::
  "'d platform \<Rightarrow> u32 \<Rightarrow> 'd world \<Rightarrow> (HAL_StatusTypeDef \<times> 'd world) option" where
  "QSPI_WaitWhileBusy p timeout_ms w =
     (case call_GetTick p w of (start, w0) \<Rightarrow> WaitWhileBusy_loop p timeout_ms start 0 w0)"

text \<open>The loop of \<^verbatim>\<open>QSPI_WriteEnable\<close> that waits for WEL.\<close>

partial_function (option) WriteEnable_loop ::
  "'d platform \<Rightarrow> u32 \<Rightarrow> u8 \<Rightarrow> 'd world \<Rightarrow> (HAL_StatusTypeDef \<times> 'd world) option" where
  "WriteEnable_loop p start sr w =
     (case QSPI_ReadStatus p sr w of
        (st, sr', w1) \<Rightarrow>
          if st \<noteq> HAL_OK then Some (HAL_ERROR, w1)
          else if sr' AND SR_WEL_MASK \<noteq> 0 then Some (HAL_OK, w1)
          else (case call_GetTick p w1 of
                  (now, w2) \<Rightarrow>
                    if now - start < QSPI_TIMEOUT p then WriteEnable_loop p start sr' w2
                    else Some (HAL_TIMEOUT, w2)))"

definition QSPI_WriteEnable ::
  "'d platform \<Rightarrow> 'd world \<Rightarrow> (HAL_StatusTypeDef \<times> 'd world) option" where
  "QSPI_WriteEnable p w =
     (case QSPI_SendSimple p (CMD_WRITE_ENABLE p) w of
        (st, w1) \<Rightarrow>
          if st \<noteq> HAL_OK then Some (HAL_ERROR, w1)
          else (case call_GetTick p w1 of (start, w2) \<Rightarrow> WriteEnable_loop p start 0 w2))"

definition read_id_cmd :: "'d platform \<Rightarrow> QSPI_CommandTypeDef" where
  "read_id_cmd p =
     cmd_zero\<lparr>InstructionMode := QSPI_INSTRUCTION_1_LINE,
              Instruction := ucast (CMD_READ_ID p),
              AddressMode := QSPI_ADDRESS_NONE,
              DataMode := QSPI_DATA_1_LINE,
              NbData := 3,
              DummyCycles := 0,
              SIOOMode := QSPI_SIOO_INST_EVERY_CMD\<rparr>"

definition QSPI_ReadID ::
  "'d platform \<Rightarrow> u8 list \<Rightarrow> 'd world \<Rightarrow> HAL_StatusTypeDef \<times> u8 list \<times> 'd world" where
  "QSPI_ReadID p id' w =
     (case call_Command p (read_id_cmd p) w of
        (st, w1) \<Rightarrow>
          if st \<noteq> HAL_OK then (HAL_ERROR, id', w1)
          else call_Receive p 3 id' w1)"

definition QSPI_Enable4ByteAddressing ::
  "'d platform \<Rightarrow> 'd world \<Rightarrow> (HAL_StatusTypeDef \<times> 'd world) option" where
  "QSPI_Enable4ByteAddressing p w =
     (case QSPI_WriteEnable p w of
        None \<Rightarrow> None
      | Some (st, w1) \<Rightarrow>
          if st \<noteq> HAL_OK then Some (HAL_ERROR, w1)
          else (case QSPI_SendSimple p CMD_ENABLE_4BYTE_ADDR w1 of
                  (st2, w2) \<Rightarrow>
                    if st2 \<noteq> HAL_OK then Some (HAL_ERROR, w2) else Some (HAL_OK, w2)))"

definition erase_cmd :: "u32 \<Rightarrow> QSPI_CommandTypeDef" where
  "erase_cmd addr =
     cmd_zero\<lparr>InstructionMode := QSPI_INSTRUCTION_1_LINE,
              Instruction := ucast CMD_SUBSECTOR_ERASE_4K_4B,
              AddressMode := QSPI_ADDRESS_1_LINE,
              AddressSize := QSPI_ADDRESS_32_BITS,
              Address := addr,
              DataMode := QSPI_DATA_NONE,
              DummyCycles := 0,
              SIOOMode := QSPI_SIOO_INST_EVERY_CMD\<rparr>"

definition QSPI_Erase4K_4B ::
  "'d platform \<Rightarrow> u32 \<Rightarrow> 'd world \<Rightarrow> (HAL_StatusTypeDef \<times> 'd world) option" where
  "QSPI_Erase4K_4B p addr w =
     (case QSPI_WriteEnable p w of
        None \<Rightarrow> None
      | Some (st, w1) \<Rightarrow>
          if st \<noteq> HAL_OK then Some (HAL_ERROR, w1)
          else Some (call_Command p (erase_cmd addr) w1))"

definition program_cmd :: "u32 \<Rightarrow> u32 \<Rightarrow> QSPI_CommandTypeDef" where
  "program_cmd addr size' =
     cmd_zero\<lparr>InstructionMode := QSPI_INSTRUCTION_1_LINE,
              Instruction := ucast CMD_PAGE_PROGRAM_4B,
              AddressMode := QSPI_ADDRESS_1_LINE,
              AddressSize := QSPI_ADDRESS_32_BITS,
              Address := addr,
              DataMode := QSPI_DATA_1_LINE,
              NbData := size',
              DummyCycles := 0,
              SIOOMode := QSPI_SIOO_INST_EVERY_CMD\<rparr>"

text \<open>
  \<open>data\<close> is the memory at the pointer \<^verbatim>\<open>data\<close>; the C caller passes at least \<open>size'\<close>
  bytes.
\<close>

definition QSPI_PageProgram_4B ::
  "'d platform \<Rightarrow> u32 \<Rightarrow> u8 list \<Rightarrow> u32 \<Rightarrow> 'd world \<Rightarrow> (HAL_StatusTypeDef \<times> 'd world) option" where
  "QSPI_PageProgram_4B p addr data size' w =
     (if size' = 0 \<or> size' > TEST_PAGE_SIZE then Some (HAL_ERROR, w)
      else (case QSPI_WriteEnable p w of
              None \<Rightarrow> None
            | Some (st, w1) \<Rightarrow>
                if st \<noteq> HAL_OK then Some (HAL_ERROR, w1)
                else (case call_Command p (program_cmd addr size') w1 of
                        (st2, w2) \<Rightarrow>
                          if st2 \<noteq> HAL_OK then Some (HAL_ERROR, w2)
                          else Some (call_Transmit p (unat size') data w2))))"

definition read_cmd :: "u32 \<Rightarrow> u32 \<Rightarrow> QSPI_CommandTypeDef" where
  "read_cmd addr size' =
     cmd_zero\<lparr>InstructionMode := QSPI_INSTRUCTION_1_LINE,
              Instruction := ucast CMD_READ_DATA_4B,
              AddressMode := QSPI_ADDRESS_1_LINE,
              AddressSize := QSPI_ADDRESS_32_BITS,
              Address := addr,
              DataMode := QSPI_DATA_1_LINE,
              NbData := size',
              DummyCycles := 0,
              SIOOMode := QSPI_SIOO_INST_EVERY_CMD\<rparr>"

definition QSPI_Read_4B ::
  "'d platform \<Rightarrow> u32 \<Rightarrow> u8 list \<Rightarrow> u32 \<Rightarrow> 'd world \<Rightarrow> HAL_StatusTypeDef \<times> u8 list \<times> 'd world" where
  "QSPI_Read_4B p addr data size' w =
     (case call_Command p (read_cmd addr size') w of
        (st, w1) \<Rightarrow>
          if st \<noteq> HAL_OK then (HAL_ERROR, data, w1)
          else call_Receive p (unat size') data w1)"

section \<open>The self-test\<close>

text \<open>\<^verbatim>\<open>for (uint32_t i = 0; i < TEST_PAGE_SIZE; ++i) out[i] = (uint8_t)(i ^ 0xA5);\<close>\<close>

definition test_pattern :: "u8 list" where
  "test_pattern = map (\<lambda>i. ucast ((word_of_nat i :: u32) XOR 0xA5)) [0..<unat TEST_PAGE_SIZE]"

text \<open>
  \<^verbatim>\<open>uint8_t verify_buf[TEST_PAGE_SIZE];\<close> and \<^verbatim>\<open>uint8_t in[TEST_PAGE_SIZE];\<close> are not
  initialised. The self-test reads them only after a \<^verbatim>\<open>QSPI_Read_4B\<close> that returned
  \<^verbatim>\<open>HAL_OK\<close> has overwritten all of them, so the bytes chosen here are never seen.
\<close>

definition fresh_buf :: "u8 list" where
  "fresh_buf = replicate (unat TEST_PAGE_SIZE) 0"

text \<open>
  The self-test is one C function of early returns. It is cut at its numbered comments:
  each definition below is the body from one comment to the closing brace, and ends in
  the definition of the next part. Lines 82 to 99 (\<^verbatim>\<open>5) Read back & compare\<close>):
\<close>

definition RunSelfTest_from_readback :: "'d platform \<Rightarrow> u8 list \<Rightarrow> 'd world \<Rightarrow> 'd world" where
  "RunSelfTest_from_readback p out w =
     (case QSPI_Read_4B p TEST_ADDR fresh_buf TEST_PAGE_SIZE w of
        (st, in', w1) \<Rightarrow>
          if st \<noteq> HAL_OK then printf ReadAfterProgramFailed w1
          else if take (unat TEST_PAGE_SIZE) out \<noteq> take (unat TEST_PAGE_SIZE) in' then
            (case find (\<lambda>i. out ! i \<noteq> in' ! i) [0..<unat TEST_PAGE_SIZE] of
               Some i \<Rightarrow> printf (VerifyMismatch i (out ! i) (in' ! i)) w1
             | None \<Rightarrow> w1)
          else printf ProgramVerifyOK w1)"

text \<open>Lines 69 to 80 (\<^verbatim>\<open>4) Program one page with a pattern\<close>), then the read-back.\<close>

definition RunSelfTest_from_program :: "'d platform \<Rightarrow> 'd world \<Rightarrow> 'd world option" where
  "RunSelfTest_from_program p w =
     (let out = test_pattern;
          w0 = printf (Programming TEST_PAGE_SIZE TEST_ADDR) w
      in case QSPI_PageProgram_4B p TEST_ADDR out TEST_PAGE_SIZE w0 of
           None \<Rightarrow> None
         | Some (st, w1) \<Rightarrow>
             if st \<noteq> HAL_OK then Some (printf ProgramFailed w1)
             else (case QSPI_WaitWhileBusy p 100 w1 of
                     None \<Rightarrow> None
                   | Some (st2, w2) \<Rightarrow>
                       if st2 \<noteq> HAL_OK then Some (printf ProgramTimeout w2)
                       else Some (RunSelfTest_from_readback p out w2)))"

text \<open>Lines 55 to 67 (\<^verbatim>\<open>quick verify erased\<close>), then the programming.\<close>

definition RunSelfTest_from_erase_verify :: "'d platform \<Rightarrow> 'd world \<Rightarrow> 'd world option" where
  "RunSelfTest_from_erase_verify p w =
     (case QSPI_Read_4B p TEST_ADDR fresh_buf TEST_PAGE_SIZE w of
        (st, verify_buf, w1) \<Rightarrow>
          if st \<noteq> HAL_OK then Some (printf ReadAfterEraseFailed w1)
          else (case find (\<lambda>i. verify_buf ! i \<noteq> 0xFF) [0..<unat TEST_PAGE_SIZE] of
                  Some i \<Rightarrow> Some (printf (EraseVerifyFailed i (verify_buf ! i)) w1)
                | None \<Rightarrow> RunSelfTest_from_program p (printf EraseOK w1)))"

text \<open>Lines 45 to 54 (\<^verbatim>\<open>3) Erase a 4KB subsector at TEST_ADDR\<close>), then the erase check.\<close>

definition RunSelfTest_from_erase :: "'d platform \<Rightarrow> 'd world \<Rightarrow> 'd world option" where
  "RunSelfTest_from_erase p w =
     (case QSPI_Erase4K_4B p TEST_ADDR (printf (Erasing TEST_ADDR) w) of
        None \<Rightarrow> None
      | Some (st, w1) \<Rightarrow>
          if st \<noteq> HAL_OK then Some (printf EraseFailed w1)
          else (case QSPI_WaitWhileBusy p 5000 w1 of
                  None \<Rightarrow> None
                | Some (st2, w2) \<Rightarrow>
                    if st2 \<noteq> HAL_OK then Some (printf EraseTimeout w2)
                    else RunSelfTest_from_erase_verify p w2))"

text \<open>Lines 34 to 43 (\<^verbatim>\<open>2) Enter 4-byte address mode\<close>), then the erase.\<close>

definition RunSelfTest_from_4byte :: "'d platform \<Rightarrow> 'd world \<Rightarrow> 'd world option" where
  "RunSelfTest_from_4byte p w =
     (case QSPI_Enable4ByteAddressing p w of
        None \<Rightarrow> None
      | Some (st, w1) \<Rightarrow>
          if st \<noteq> HAL_OK then Some (printf Enter4ByteFailed w1)
          else (case QSPI_WaitWhileBusy p 100 w1 of
                  None \<Rightarrow> None
                | Some (st2, w2) \<Rightarrow>
                    if st2 \<noteq> HAL_OK then Some (printf BusyAfter4B w2)
                    else RunSelfTest_from_erase p w2))"

text \<open>
  Lines 13 to 32 (reset and \<^verbatim>\<open>1) Read JEDEC ID\<close>), then the rest. \<^verbatim>\<open>||\<close> evaluates its
  second operand only when the first reset command returned \<^verbatim>\<open>HAL_OK\<close>.
\<close>

definition MT25Q_RunSelfTest :: "'d platform \<Rightarrow> 'd world \<Rightarrow> 'd world option" where
  "MT25Q_RunSelfTest p w =
     (case QSPI_SendSimple p (CMD_RESET_ENABLE p) (printf SelfTestStart w) of
        (st, w1) \<Rightarrow>
          if st \<noteq> HAL_OK then Some (printf ResetFailed w1)
          else (case QSPI_SendSimple p (CMD_RESET_MEMORY p) w1 of
                  (st2, w2) \<Rightarrow>
                    if st2 \<noteq> HAL_OK then Some (printf ResetFailed w2)
                    else (case QSPI_ReadID p [0, 0, 0] (call_Delay p 1 w2) of
                            (st3, id', w3) \<Rightarrow>
                              if st3 \<noteq> HAL_OK then Some (printf ReadIDFailed w3)
                              else RunSelfTest_from_4byte p
                                     (printf (JedecID (id' ! 0) (id' ! 1) (id' ! 2)) w3))))"

section \<open>A simulated flash device\<close>

text \<open>
  A test double for the HAL, on which the theorems below are run at concrete inputs. Every
  bus call takes one millisecond. A write-enable command sets WEL when \<open>wel_latches\<close>; an
  erase command or the data of a program command, accepted only under WEL, clears WEL,
  keeps WIP set for \<open>busy_ms\<close> and changes the cells that are not \<open>stuck\<close>. The bus call
  number \<open>n\<close> (counted from 0) fails when \<open>fail_call n\<close>.
\<close>

record flash_sim =
  clk :: nat
  calls :: nat
  last_cmd :: QSPI_CommandTypeDef
  wel :: bool
  busy_until :: nat
  mem :: "u32 \<Rightarrow> u8"

record sim_knobs =
  fail_call :: "nat \<Rightarrow> bool"
  wel_latches :: bool
  busy_ms :: nat
  stuck :: "u32 \<Rightarrow> bool"
  handshake_ms :: u32

definition sim_tick :: "flash_sim \<Rightarrow> flash_sim" where
  "sim_tick d = d\<lparr>clk := clk d + 1, calls := calls d + 1\<rparr>"

definition sim_status :: "flash_sim \<Rightarrow> u8" where
  "sim_status d = (if clk d < busy_until d then 1 else 0) OR (if wel d then 2 else 0)"

definition sim_Command ::
  "sim_knobs \<Rightarrow> flash_sim \<Rightarrow> QSPI_CommandTypeDef \<Rightarrow> u32 \<Rightarrow> HAL_StatusTypeDef \<times> flash_sim" where
  "sim_Command k d c t =
     (if fail_call k (calls d) then (HAL_ERROR, sim_tick d)
      else if Instruction c = 0x06 then
        (HAL_OK, (sim_tick d)\<lparr>last_cmd := c, wel := wel_latches k\<rparr>)
      else if Instruction c = 0x21 \<and> wel d then
        (HAL_OK, (sim_tick d)\<lparr>last_cmd := c, wel := False,
           busy_until := clk d + 1 + busy_ms k,
           mem := (\<lambda>a. if drop_bit 12 a = drop_bit 12 (Address c) \<and> \<not> stuck k a
                        then 0xFF else mem d a)\<rparr>)
      else (HAL_OK, (sim_tick d)\<lparr>last_cmd := c\<rparr>))"

definition sim_Receive ::
  "sim_knobs \<Rightarrow> flash_sim \<Rightarrow> u32 \<Rightarrow> HAL_StatusTypeDef \<times> (nat \<Rightarrow> u8) \<times> flash_sim" where
  "sim_Receive k d t =
     (if fail_call k (calls d) then (HAL_ERROR, (\<lambda>i. 0), sim_tick d)
      else if Instruction (last_cmd d) = 0x05 then
        (HAL_OK, (\<lambda>i. sim_status (sim_tick d)), sim_tick d)
      else if Instruction (last_cmd d) = 0x9E then
        (HAL_OK, (\<lambda>i. if i = 1 then 0xBA else 0x20), sim_tick d)
      else (HAL_OK, (\<lambda>i. mem d (Address (last_cmd d) + word_of_nat i)), sim_tick d))"

definition write_page ::
  "sim_knobs \<Rightarrow> u32 \<Rightarrow> u32 \<Rightarrow> u8 list \<Rightarrow> (u32 \<Rightarrow> u8) \<Rightarrow> u32 \<Rightarrow> u8" where
  "write_page k base n data old =
     (\<lambda>a. if a - base < n \<and> \<not> stuck k a then data ! unat (a - base) else old a)"

definition sim_Transmit ::
  "sim_knobs \<Rightarrow> flash_sim \<Rightarrow> u8 list \<Rightarrow> u32 \<Rightarrow> HAL_StatusTypeDef \<times> flash_sim" where
  "sim_Transmit k d data t =
     (if fail_call k (calls d) then (HAL_ERROR, sim_tick d)
      else if Instruction (last_cmd d) = 0x12 \<and> wel d then
        (HAL_OK, (sim_tick d)\<lparr>wel := False, busy_until := clk d + 1 + busy_ms k,
           mem := write_page k (Address (last_cmd d)) (word_of_nat (length data)) data
                    (mem d)\<rparr>)
      else (HAL_OK, sim_tick d))"

definition sim :: "sim_knobs \<Rightarrow> flash_sim platform" where
  "sim k = \<lparr>CMD_RESET_ENABLE = 0x66, CMD_RESET_MEMORY = 0x99, CMD_READ_ID = 0x9E,
     CMD_READ_STATUS_REG = 0x05, CMD_WRITE_ENABLE = 0x06, QSPI_TIMEOUT = handshake_ms k,
     HAL_QSPI_Command = sim_Command k, HAL_QSPI_Receive = sim_Receive k,
     HAL_QSPI_Transmit = sim_Transmit k,
     HAL_GetTick = (\<lambda>d. (word_of_nat (clk d), d)),
     HAL_Delay = (\<lambda>d ms. d\<lparr>clk := clk d + unat ms\<rparr>)\<rparr>"

text \<open>A device that works, and the world at power-up with every cell holding \<open>fill\<close>.\<close>

definition good_knobs :: sim_knobs where
  "good_knobs = \<lparr>fail_call = (\<lambda>n. False), wel_latches = True, busy_ms = 2,
     stuck = (\<lambda>a. False), handshake_ms = 3\<rparr>"

definition power_up :: "u8 \<Rightarrow> flash_sim world" where
  "power_up fill = \<lparr>dev = \<lparr>clk = 0, calls = 0, last_cmd = cmd_zero, wel = False,
     busy_until = 0, mem = (\<lambda>a. fill)\<rparr>, bus = [], console = []\<rparr>"

section \<open>The polls of a waiting loop\<close>

text \<open>
  Both waiting loops repeat the same body: read the status register, then read the tick
  counter. \<open>poll_next\<close> is the state in which the next iteration starts when the loop goes
  round; the four observations of iteration \<open>i\<close> (counted from 0) of a loop entered with
  \<^verbatim>\<open>sr\<close> and world \<open>x = (sr, w)\<close> are the status and the byte \<^verbatim>\<open>QSPI_ReadStatus\<close>
  returns, the world right after it, and the tick \<^verbatim>\<open>HAL_GetTick\<close> returns after it.
\<close>

definition poll_next :: "'d platform \<Rightarrow> u8 \<times> 'd world \<Rightarrow> u8 \<times> 'd world" where
  "poll_next p x =
     (case QSPI_ReadStatus p (fst x) (snd x) of
        (st, sr', w1) \<Rightarrow> (sr', snd (call_GetTick p w1)))"

definition poll_status :: "'d platform \<Rightarrow> u8 \<times> 'd world \<Rightarrow> nat \<Rightarrow> HAL_StatusTypeDef" where
  "poll_status p x i =
     (case (poll_next p ^^ i) x of (sr, w) \<Rightarrow> fst (QSPI_ReadStatus p sr w))"

definition poll_sr :: "'d platform \<Rightarrow> u8 \<times> 'd world \<Rightarrow> nat \<Rightarrow> u8" where
  "poll_sr p x i =
     (case (poll_next p ^^ i) x of (sr, w) \<Rightarrow> fst (snd (QSPI_ReadStatus p sr w)))"

definition poll_world :: "'d platform \<Rightarrow> u8 \<times> 'd world \<Rightarrow> nat \<Rightarrow> 'd world" where
  "poll_world p x i =
     (case (poll_next p ^^ i) x of (sr, w) \<Rightarrow> snd (snd (QSPI_ReadStatus p sr w)))"

definition poll_tick :: "'d platform \<Rightarrow> u8 \<times> 'd world \<Rightarrow> nat \<Rightarrow> u32" where
  "poll_tick p x i = fst (call_GetTick p (poll_world p x i))"

text \<open>The tick at which iteration \<open>i\<close> begins: the loop's \<^verbatim>\<open>start\<close>, or the tick read before.\<close>

definition poll_begin :: "'d platform \<Rightarrow> u8 \<times> 'd world \<Rightarrow> u32 \<Rightarrow> nat \<Rightarrow> u32" where
  "poll_begin p x start i = (case i of 0 \<Rightarrow> start | Suc j \<Rightarrow> poll_tick p x j)"

text \<open>
  Iteration \<open>i\<close> goes round: the status read succeeded, the awaited bit \<open>msk\<close> was not
  yet as awaited (\<open>want\<close> tells whether the loop waits for the bit to be set), and the
  deadline had not passed.
\<close>

definition poll_goes_on ::
  "'d platform \<Rightarrow> u8 \<times> 'd world \<Rightarrow> u8 \<Rightarrow> bool \<Rightarrow> u32 \<Rightarrow> u32 \<Rightarrow> nat \<Rightarrow> bool" where
  "poll_goes_on p x msk want start timeout_ms i \<longleftrightarrow>
     poll_status p x i = HAL_OK \<and> (poll_sr p x i AND msk \<noteq> 0) \<noteq> want
     \<and> poll_tick p x i - start < timeout_ms"

section \<open>What reaches the bus\<close>

text \<open>
  The events of a status poll: the read-status command and the byte received for it.
\<close>

fun is_poll_event :: "'d platform \<Rightarrow> bus_event \<Rightarrow> bool" where
  "is_poll_event p (BusCommand c st) = (c = read_status_cmd p)"
| "is_poll_event p (BusReceive b st) = (length b = 1)"
| "is_poll_event p (BusTransmit b st) = False"

text \<open>
  The transactions that change the flash contents: a command built by
  \<^verbatim>\<open>QSPI_Erase4K_4B\<close> or by \<^verbatim>\<open>QSPI_PageProgram_4B\<close>, and any transmitted data.
\<close>

fun data_mutating :: "bus_event \<Rightarrow> bool" where
  "data_mutating (BusCommand c st) =
     (c = erase_cmd (Address c) \<or> c = program_cmd (Address c) (NbData c))"
| "data_mutating (BusReceive b st) = False"
| "data_mutating (BusTransmit b st) = True"

text \<open>The bus events between an earlier world and a later one.\<close>

definition bus_since :: "'d world \<Rightarrow> 'd world \<Rightarrow> bus_event list" where
  "bus_since w w' = drop (length (bus w)) (bus w')"

text \<open>
  From \<open>w\<close> to \<open>w'\<close> the program polled the status register at least once and did nothing
  else on the bus or the console.
\<close>

definition polled :: "'d platform \<Rightarrow> 'd world \<Rightarrow> 'd world \<Rightarrow> bool" where
  "polled p w w' \<longleftrightarrow>
     (\<exists>st evs. bus w' = bus w @ BusCommand (read_status_cmd p) st # evs
        \<and> list_all (is_poll_event p) evs) \<and> console w' = console w"

text \<open>Worlds and devices for the concrete runs.\<close>

definition busy_world :: "nat \<Rightarrow> flash_sim world" where
  "busy_world n = \<lparr>dev = \<lparr>clk = 0, calls = 0, last_cmd = cmd_zero, wel = False,
     busy_until = n, mem = (\<lambda>a. 0xFF)\<rparr>, bus = [], console = []\<rparr>"

definition no_wel_knobs :: sim_knobs where
  "no_wel_knobs = \<lparr>fail_call = (\<lambda>n. False), wel_latches = False, busy_ms = 2,
     stuck = (\<lambda>a. False), handshake_ms = 3\<rparr>"

text \<open>A device whose third bus call (the read-identity command of the self-test) fails.\<close>

definition fail2_knobs :: sim_knobs where
  "fail2_knobs = \<lparr>fail_call = (\<lambda>n. n = 2), wel_latches = True, busy_ms = 2,
     stuck = (\<lambda>a. False), handshake_ms = 3\<rparr>"


text \<open>A working device whose erase and program operations are over at once.\<close>

definition quick_knobs :: sim_knobs where
  "quick_knobs = \<lparr>fail_call = (\<lambda>n. False), wel_latches = True, busy_ms = 0,
     stuck = (\<lambda>a. False), handshake_ms = 3\<rparr>"


text \<open>
  A device with one cell the erase cannot change, at offset 0x100 of the test subsector,
  and whose bus call number 18 (the write-enable command of the programming step) fails.
\<close>

definition stuck_knobs :: sim_knobs where
  "stuck_knobs = \<lparr>fail_call = (\<lambda>n. n = 18), wel_latches = True, busy_ms = 2,
     stuck = (\<lambda>a. a = 0x1100), handshake_ms = 3\<rparr>"


text \<open>
  The structural invariant of a command, read on the C structure. A command without an
  address phase leaves the address fields at the zero of the initialiser (no address is
  supplied); a command with an address phase supplies a 32-bit address; and the byte count
  is non-zero exactly when there is a data phase.
\<close>

definition cmd_wf :: "QSPI_CommandTypeDef \<Rightarrow> bool" where
  "cmd_wf c \<longleftrightarrow>
     (AddressMode c = QSPI_ADDRESS_NONE \<longrightarrow> Address c = 0 \<and> AddressSize c = QSPI_ADDRESS_8_BITS)
     \<and> (AddressMode c \<noteq> QSPI_ADDRESS_NONE \<longrightarrow> AddressSize c = QSPI_ADDRESS_32_BITS)
     \<and> (NbData c \<noteq> 0 \<longleftrightarrow> DataMode c \<noteq> QSPI_DATA_NONE)"

fun event_wf :: "bus_event \<Rightarrow> bool" where
  "event_wf (BusCommand c st) = cmd_wf c"
| "event_wf (BusReceive b st) = True"
| "event_wf (BusTransmit b st) = True"

text \<open>
  From \<open>w\<close> to \<open>w'\<close> the bus log only grew, and every command added to it satisfies the
  invariant.
\<close>

definition bus_wf_since :: "'d world \<Rightarrow> 'd world \<Rightarrow> bool" where
  "bus_wf_since w w' \<longleftrightarrow>
     take (length (bus w)) (bus w') = bus w \<and> list_all event_wf (bus_since w w')"


section \<open>Properties of the waiting loops\<close>

declare WaitWhileBusy_loop.simps [code] WriteEnable_loop.simps [code]

lemma poll_shift:
  "poll_status p x (Suc i) = poll_status p (poll_next p x) i"
  "poll_sr p x (Suc i) = poll_sr p (poll_next p x) i"
  "poll_world p x (Suc i) = poll_world p (poll_next p x) i"
  "poll_tick p x (Suc i) = poll_tick p (poll_next p x) i"
  by (simp_all add: poll_status_def poll_sr_def poll_world_def poll_tick_def funpow_swap1)

lemma poll_zero:
  "poll_status p (sr, w) 0 = fst (QSPI_ReadStatus p sr w)"
  "poll_sr p (sr, w) 0 = fst (snd (QSPI_ReadStatus p sr w))"
  "poll_world p (sr, w) 0 = snd (snd (QSPI_ReadStatus p sr w))"
  "poll_tick p (sr, w) 0 = fst (call_GetTick p (snd (snd (QSPI_ReadStatus p sr w))))"
  by (simp_all add: poll_status_def poll_sr_def poll_world_def poll_tick_def)

lemma poll_goes_on_Suc:
  "poll_goes_on p x msk want start t (Suc i) = poll_goes_on p (poll_next p x) msk want start t i"
  by (simp add: poll_goes_on_def poll_shift)

lemma WaitWhileBusy_loop_round:
  assumes "poll_goes_on p (sr, w) SR_WIP_MASK False start t 0"
  shows "WaitWhileBusy_loop p t start sr w =
         WaitWhileBusy_loop p t start (fst (poll_next p (sr, w))) (snd (poll_next p (sr, w)))"
  using assms
  by (subst WaitWhileBusy_loop.simps)
     (auto simp: poll_goes_on_def poll_zero poll_next_def split: prod.splits)

lemma WaitWhileBusy_loop_clear:
  assumes "poll_status p (sr, w) 0 = HAL_OK" "poll_sr p (sr, w) 0 AND SR_WIP_MASK = 0"
  shows "WaitWhileBusy_loop p t start sr w = Some (HAL_OK, poll_world p (sr, w) 0)"
  using assms
  by (subst WaitWhileBusy_loop.simps) (auto simp: poll_zero split: prod.splits)

lemma WaitWhileBusy_loop_late:
  assumes "poll_status p (sr, w) 0 = HAL_OK" "poll_sr p (sr, w) 0 AND SR_WIP_MASK \<noteq> 0"
    "\<not> poll_tick p (sr, w) 0 - start < t"
  shows "WaitWhileBusy_loop p t start sr w =
         Some (HAL_TIMEOUT, snd (call_GetTick p (poll_world p (sr, w) 0)))"
  using assms
  by (subst WaitWhileBusy_loop.simps) (auto simp: poll_zero split: prod.splits)

lemma WaitWhileBusy_loop_fault:
  assumes "poll_status p (sr, w) 0 \<noteq> HAL_OK"
  shows "WaitWhileBusy_loop p t start sr w = Some (HAL_ERROR, poll_world p (sr, w) 0)"
  using assms
  by (subst WaitWhileBusy_loop.simps) (auto simp: poll_zero split: prod.splits)

lemma WaitWhileBusy_loop_rounds:
  "(\<forall>i<k. poll_goes_on p x SR_WIP_MASK False start t i) \<Longrightarrow>
   WaitWhileBusy_loop p t start (fst x) (snd x) =
   WaitWhileBusy_loop p t start (fst ((poll_next p ^^ k) x)) (snd ((poll_next p ^^ k) x))"
proof (induction k arbitrary: x)
  case 0
  then show ?case by simp
next
  case (Suc k)
  have first: "poll_goes_on p (fst x, snd x) SR_WIP_MASK False start t 0"
    using Suc.prems by simp
  have rest: "\<forall>i<k. poll_goes_on p (poll_next p x) SR_WIP_MASK False start t i"
    using Suc.prems by (auto simp: poll_goes_on_Suc[symmetric])
  show ?case
    using WaitWhileBusy_loop_round[OF first] Suc.IH[OF rest]
    by (simp add: funpow_swap1)
qed

lemma WriteEnable_loop_round:
  assumes "poll_goes_on p (sr, w) SR_WEL_MASK True start (QSPI_TIMEOUT p) 0"
  shows "WriteEnable_loop p start sr w =
         WriteEnable_loop p start (fst (poll_next p (sr, w))) (snd (poll_next p (sr, w)))"
  using assms
  by (subst WriteEnable_loop.simps)
     (auto simp: poll_goes_on_def poll_zero poll_next_def split: prod.splits)

lemma WriteEnable_loop_set:
  assumes "poll_status p (sr, w) 0 = HAL_OK" "poll_sr p (sr, w) 0 AND SR_WEL_MASK \<noteq> 0"
  shows "WriteEnable_loop p start sr w = Some (HAL_OK, poll_world p (sr, w) 0)"
  using assms
  by (subst WriteEnable_loop.simps) (auto simp: poll_zero split: prod.splits)

lemma WriteEnable_loop_late:
  assumes "poll_status p (sr, w) 0 = HAL_OK" "poll_sr p (sr, w) 0 AND SR_WEL_MASK = 0"
    "\<not> poll_tick p (sr, w) 0 - start < QSPI_TIMEOUT p"
  shows "WriteEnable_loop p start sr w =
         Some (HAL_TIMEOUT, snd (call_GetTick p (poll_world p (sr, w) 0)))"
  using assms
  by (subst WriteEnable_loop.simps) (auto simp: poll_zero split: prod.splits)

lemma WriteEnable_loop_rounds:
  "(\<forall>i<k. poll_goes_on p x SR_WEL_MASK True start (QSPI_TIMEOUT p) i) \<Longrightarrow>
   WriteEnable_loop p start (fst x) (snd x) =
   WriteEnable_loop p start (fst ((poll_next p ^^ k) x)) (snd ((poll_next p ^^ k) x))"
proof (induction k arbitrary: x)
  case 0
  then show ?case by simp
next
  case (Suc k)
  have first: "poll_goes_on p (fst x, snd x) SR_WEL_MASK True start (QSPI_TIMEOUT p) 0"
    using Suc.prems by simp
  have rest: "\<forall>i<k. poll_goes_on p (poll_next p x) SR_WEL_MASK True start (QSPI_TIMEOUT p) i"
    using Suc.prems by (auto simp: poll_goes_on_Suc[symmetric])
  show ?case
    using WriteEnable_loop_round[OF first] Suc.IH[OF rest]
    by (simp add: funpow_swap1)
qed

lemma poll_at:
  "poll_status p x k = poll_status p ((poll_next p ^^ k) x) 0"
  "poll_sr p x k = poll_sr p ((poll_next p ^^ k) x) 0"
  "poll_world p x k = poll_world p ((poll_next p ^^ k) x) 0"
  "poll_tick p x k = poll_tick p ((poll_next p ^^ k) x) 0"
  by (simp_all add: poll_status_def poll_sr_def poll_world_def poll_tick_def)

lemma WaitWhileBusy_loop_returns_ok:
  assumes "\<forall>i<k. poll_goes_on p x SR_WIP_MASK False start t i"
    and "poll_status p x k = HAL_OK" and "poll_sr p x k AND SR_WIP_MASK = 0"
  shows "WaitWhileBusy_loop p t start (fst x) (snd x) = Some (HAL_OK, poll_world p x k)"
proof -
  obtain sr' w' where y: "(poll_next p ^^ k) x = (sr', w')"
    by (cases "(poll_next p ^^ k) x")
  have "WaitWhileBusy_loop p t start sr' w' = Some (HAL_OK, poll_world p (sr', w') 0)"
    using assms(2,3) by (intro WaitWhileBusy_loop_clear) (simp_all add: poll_at[of p x k] y)
  then show ?thesis
    using WaitWhileBusy_loop_rounds[OF assms(1)] by (simp add: poll_at[of p x k] y)
qed

lemma WaitWhileBusy_loop_returns_timeout:
  assumes "\<forall>i<n. poll_goes_on p x SR_WIP_MASK False start t i"
    and "poll_status p x n = HAL_OK" and "poll_sr p x n AND SR_WIP_MASK \<noteq> 0"
    and "\<not> poll_tick p x n - start < t"
  shows "WaitWhileBusy_loop p t start (fst x) (snd x) =
         Some (HAL_TIMEOUT, snd (call_GetTick p (poll_world p x n)))"
proof -
  obtain sr' w' where y: "(poll_next p ^^ n) x = (sr', w')"
    by (cases "(poll_next p ^^ n) x")
  have "WaitWhileBusy_loop p t start sr' w' =
        Some (HAL_TIMEOUT, snd (call_GetTick p (poll_world p (sr', w') 0)))"
    using assms(2,3,4) by (intro WaitWhileBusy_loop_late) (simp_all add: poll_at[of p x n] y)
  then show ?thesis
    using WaitWhileBusy_loop_rounds[OF assms(1)] by (simp add: poll_at[of p x n] y)
qed

lemma WriteEnable_loop_returns_timeout:
  assumes "\<forall>i<n. poll_goes_on p x SR_WEL_MASK True start (QSPI_TIMEOUT p) i"
    and "poll_status p x n = HAL_OK" and "poll_sr p x n AND SR_WEL_MASK = 0"
    and "\<not> poll_tick p x n - start < QSPI_TIMEOUT p"
  shows "WriteEnable_loop p start (fst x) (snd x) =
         Some (HAL_TIMEOUT, snd (call_GetTick p (poll_world p x n)))"
proof -
  obtain sr' w' where y: "(poll_next p ^^ n) x = (sr', w')"
    by (cases "(poll_next p ^^ n) x")
  have "WriteEnable_loop p start sr' w' =
        Some (HAL_TIMEOUT, snd (call_GetTick p (poll_world p (sr', w') 0)))"
    using assms(2,3,4) by (intro WriteEnable_loop_late) (simp_all add: poll_at[of p x n] y)
  then show ?thesis
    using WriteEnable_loop_rounds[OF assms(1)] by (simp add: poll_at[of p x n] y)
qed

lemma unat_add_le: "unat (a + b) \<le> unat a + unat (b :: u32)"
  by (simp add: unat_word_ariths)

lemma overshoot_bound:
  fixes t0 t1 t2 lim :: u32
  assumes "t1 - t0 < lim \<or> t1 = t0"
  shows "unat (t2 - t0) \<le> unat lim + unat (t2 - t1)"
proof -
  have "t2 - t0 = (t1 - t0) + (t2 - t1)" by simp
  then have "unat (t2 - t0) \<le> unat (t1 - t0) + unat (t2 - t1)"
    using unat_add_le[of "t1 - t0" "t2 - t1"] by (simp only:)
  moreover have "unat (t1 - t0) \<le> unat lim"
    using assms by (auto simp: word_less_nat_alt)
  ultimately show ?thesis by linarith
qed


lemma call_Command_out:
  "call_Command p c w = (st, w') \<Longrightarrow> bus w' = bus w @ [BusCommand c st] \<and> console w' = console w"
  by (auto simp: call_Command_def split: prod.splits)

lemma call_Receive_out:
  "call_Receive p n buf w = (st, buf', w') \<Longrightarrow>
   bus w' = bus w @ [BusReceive (take n buf') st] \<and> console w' = console w
   \<and> length (take n buf') = n \<and> length buf' = max n (length buf)"
  by (auto simp: call_Receive_def split: prod.splits)

lemma call_Transmit_out:
  "call_Transmit p n data w = (st, w') \<Longrightarrow>
   bus w' = bus w @ [BusTransmit (take n data) st] \<and> console w' = console w"
  by (auto simp: call_Transmit_def split: prod.splits)

lemma call_GetTick_out:
  "call_GetTick p w = (t, w') \<Longrightarrow> bus w' = bus w \<and> console w' = console w"
  by (auto simp: call_GetTick_def split: prod.splits)

lemma call_Delay_out: "bus (call_Delay p ms w) = bus w \<and> console (call_Delay p ms w) = console w"
  by (simp add: call_Delay_def)

lemma printf_out: "bus (printf r w) = bus w \<and> console (printf r w) = console w @ [r]"
  by (simp add: printf_def)

lemma QSPI_ReadStatus_out:
  assumes "QSPI_ReadStatus p sr w = (st, sr', w')"
  shows "polled p w w'"
proof (cases "call_Command p (read_status_cmd p) w")
  case (Pair st1 w1)
  note c = call_Command_out[OF Pair]
  show ?thesis
  proof (cases "st1 = HAL_OK")
    case False
    then have "w' = w1" using assms Pair by (simp add: QSPI_ReadStatus_def)
    then show ?thesis using c by (simp add: polled_def)
  next
    case True
    obtain st2 buf w2 where r: "call_Receive p 1 [sr] w1 = (st2, buf, w2)"
      by (cases "call_Receive p 1 [sr] w1") auto
    then have "w' = w2" using assms Pair True by (simp add: QSPI_ReadStatus_def)
    then show ?thesis using c call_Receive_out[OF r] by (simp add: polled_def)
  qed
qed

lemma polled_trans: "polled p w w1 \<Longrightarrow> polled p w1 w2 \<Longrightarrow> polled p w w2"
  by (auto simp: polled_def)

lemma polled_tick: "polled p w w1 \<Longrightarrow> call_GetTick p w1 = (t, w2) \<Longrightarrow> polled p w w2"
  using call_GetTick_out[of p w1 t w2] by (auto simp: polled_def)

lemma WaitWhileBusy_loop_out:
  assumes "WaitWhileBusy_loop p t start sr w = Some y"
  shows "polled p w (snd y)"
proof (rule WaitWhileBusy_loop.raw_induct[where P = "\<lambda>p t start sr w y. polled p w (snd y)",
        OF _ assms], goal_cases)
  case (1 f p t start sr w y)
  obtain st sr' w1 where rs: "QSPI_ReadStatus p sr w = (st, sr', w1)"
    by (cases "QSPI_ReadStatus p sr w") auto
  obtain now w2 where gt: "call_GetTick p w1 = (now, w2)"
    by (cases "call_GetTick p w1") auto
  note a = QSPI_ReadStatus_out[OF rs]
  note b = polled_tick[OF a gt]
  show ?case
    using 1(2) 1(1)[of p t start sr' w2 y] a b
    by (auto simp: rs gt split: if_splits intro: polled_trans)
qed

lemma WriteEnable_loop_out:
  assumes "WriteEnable_loop p start sr w = Some y"
  shows "polled p w (snd y)"
proof (rule WriteEnable_loop.raw_induct[where P = "\<lambda>p start sr w y. polled p w (snd y)",
        OF _ assms], goal_cases)
  case (1 f p start sr w y)
  obtain st sr' w1 where rs: "QSPI_ReadStatus p sr w = (st, sr', w1)"
    by (cases "QSPI_ReadStatus p sr w") auto
  obtain now w2 where gt: "call_GetTick p w1 = (now, w2)"
    by (cases "call_GetTick p w1") auto
  note a = QSPI_ReadStatus_out[OF rs]
  note b = polled_tick[OF a gt]
  show ?case
    using 1(2) 1(1)[of p start sr' w2 y] a b
    by (auto simp: rs gt split: if_splits intro: polled_trans)
qed

text \<open>
  C3. \<^verbatim>\<open>QSPI_WaitWhileBusy\<close> against any sequence of status reads, for any timeout. If
  the polls before poll \<open>k\<close> saw WIP set with the deadline not yet passed and poll \<open>k\<close> sees
  WIP clear, the function returns \<^verbatim>\<open>HAL_OK\<close> in the world that poll leaves: nothing
  happens between observing the clear bit and returning. If WIP stays set and the tick read
  after poll \<open>n\<close> is the first to reach the timeout, the function returns \<^verbatim>\<open>HAL_TIMEOUT\<close>
  there, and the ticks elapsed since loop entry exceed the timeout by no more than the
  ticks that last poll took.
\<close>

theorem wait_while_busy_trace:
  assumes "call_GetTick p w = (start, w0)"
  shows "(\<forall>k. (\<forall>i<k. poll_goes_on p (0, w0) SR_WIP_MASK False start t i)
               \<and> poll_status p (0, w0) k = HAL_OK
               \<and> poll_sr p (0, w0) k AND SR_WIP_MASK = 0
            \<longrightarrow> QSPI_WaitWhileBusy p t w = Some (HAL_OK, poll_world p (0, w0) k))
       \<and> (\<forall>n. (\<forall>i<n. poll_goes_on p (0, w0) SR_WIP_MASK False start t i)
               \<and> poll_status p (0, w0) n = HAL_OK
               \<and> poll_sr p (0, w0) n AND SR_WIP_MASK \<noteq> 0
               \<and> \<not> poll_tick p (0, w0) n - start < t
            \<longrightarrow> QSPI_WaitWhileBusy p t w
                  = Some (HAL_TIMEOUT, snd (call_GetTick p (poll_world p (0, w0) n)))
                \<and> unat (poll_tick p (0, w0) n - start)
                  \<le> unat t + unat (poll_tick p (0, w0) n - poll_begin p (0, w0) start n))"
proof (intro conjI allI impI)
  fix k
  assume h: "(\<forall>i<k. poll_goes_on p (0, w0) SR_WIP_MASK False start t i)
               \<and> poll_status p (0, w0) k = HAL_OK
               \<and> poll_sr p (0, w0) k AND SR_WIP_MASK = 0"
  then show "QSPI_WaitWhileBusy p t w = Some (HAL_OK, poll_world p (0, w0) k)"
    using WaitWhileBusy_loop_returns_ok[of k p "(0, w0)" start t] assms
    by (simp add: QSPI_WaitWhileBusy_def)
next
  fix n
  assume h: "(\<forall>i<n. poll_goes_on p (0, w0) SR_WIP_MASK False start t i)
               \<and> poll_status p (0, w0) n = HAL_OK
               \<and> poll_sr p (0, w0) n AND SR_WIP_MASK \<noteq> 0
               \<and> \<not> poll_tick p (0, w0) n - start < t"
  then show "QSPI_WaitWhileBusy p t w
                  = Some (HAL_TIMEOUT, snd (call_GetTick p (poll_world p (0, w0) n)))"
    using WaitWhileBusy_loop_returns_timeout[of n p "(0, w0)" start t] assms
    by (simp add: QSPI_WaitWhileBusy_def)
  have "poll_begin p (0, w0) start n - start < t \<or> poll_begin p (0, w0) start n = start"
  proof (cases n)
    case 0
    then show ?thesis by (simp add: poll_begin_def)
  next
    case (Suc m)
    then have "poll_goes_on p (0, w0) SR_WIP_MASK False start t m" using h by simp
    then show ?thesis using Suc by (simp add: poll_begin_def poll_goes_on_def)
  qed
  then show "unat (poll_tick p (0, w0) n - start)
                  \<le> unat t + unat (poll_tick p (0, w0) n - poll_begin p (0, w0) start n)"
    by (rule overshoot_bound)
qed

theorem wait_while_busy_trace_witness:
  "map_option fst (QSPI_WaitWhileBusy (sim good_knobs) 10 (busy_world 4)) = Some HAL_OK
   \<and> map_option (\<lambda>r. clk (dev (snd r))) (QSPI_WaitWhileBusy (sim good_knobs) 10 (busy_world 4))
       = Some 4
   \<and> map_option fst (QSPI_WaitWhileBusy (sim good_knobs) 3 (busy_world 100)) = Some HAL_TIMEOUT
   \<and> map_option (\<lambda>r. clk (dev (snd r))) (QSPI_WaitWhileBusy (sim good_knobs) 3 (busy_world 100))
       = Some 4"
proof -
  have s1: "call_GetTick (sim good_knobs) (busy_world 4) = (0, busy_world 4)"
    by (simp add: call_GetTick_def sim_def busy_world_def)
  have g1: "\<forall>i<1. poll_goes_on (sim good_knobs) (0, busy_world 4) SR_WIP_MASK False 0 10 i"
    by code_simp
  have e1: "poll_status (sim good_knobs) (0, busy_world 4) 1 = HAL_OK
            \<and> poll_sr (sim good_knobs) (0, busy_world 4) 1 AND SR_WIP_MASK = 0"
    by code_simp
  have c1: "clk (dev (poll_world (sim good_knobs) (0, busy_world 4) 1)) = 4"
    by code_simp
  have s2: "call_GetTick (sim good_knobs) (busy_world 100) = (0, busy_world 100)"
    by (simp add: call_GetTick_def sim_def busy_world_def)
  have g2: "\<forall>i<1. poll_goes_on (sim good_knobs) (0, busy_world 100) SR_WIP_MASK False 0 3 i"
    by code_simp
  have e2: "poll_status (sim good_knobs) (0, busy_world 100) 1 = HAL_OK
            \<and> poll_sr (sim good_knobs) (0, busy_world 100) 1 AND SR_WIP_MASK \<noteq> 0
            \<and> \<not> poll_tick (sim good_knobs) (0, busy_world 100) 1 - 0 < 3"
    by code_simp
  have c2: "clk (dev (snd (call_GetTick (sim good_knobs)
              (poll_world (sim good_knobs) (0, busy_world 100) 1)))) = 4"
    by code_simp
  have r1: "QSPI_WaitWhileBusy (sim good_knobs) 10 (busy_world 4)
            = Some (HAL_OK, poll_world (sim good_knobs) (0, busy_world 4) 1)"
    using wait_while_busy_trace[OF s1, of 10] g1 e1 by blast
  have r2: "QSPI_WaitWhileBusy (sim good_knobs) 3 (busy_world 100)
            = Some (HAL_TIMEOUT, snd (call_GetTick (sim good_knobs)
                (poll_world (sim good_knobs) (0, busy_world 100) 1)))"
    using wait_while_busy_trace[OF s2, of 3] g2 e2 by blast
  show ?thesis
    using c1 c2 by (simp add: r1 r2)
qed

text \<open>
  C5. \<^verbatim>\<open>QSPI_PageProgram_4B\<close> with a size of 0, or above the page size, returns
  \<^verbatim>\<open>HAL_ERROR\<close> (the only failure status qspi.c has for a bad argument) and leaves the
  world as it was: no write-enable, no poll, no program command, nothing on the bus.
\<close>

theorem page_program_rejects_bad_size:
  "size' = 0 \<or> TEST_PAGE_SIZE < size' \<Longrightarrow>
   QSPI_PageProgram_4B p addr data size' w = Some (HAL_ERROR, w)"
  by (simp add: QSPI_PageProgram_4B_def)

theorem page_program_rejects_bad_size_witness:
  "QSPI_PageProgram_4B (sim good_knobs) TEST_ADDR [] 0 (power_up 0xFF)
     = Some (HAL_ERROR, power_up 0xFF)
   \<and> QSPI_PageProgram_4B (sim good_knobs) TEST_ADDR (replicate 257 0) 257 (power_up 0xFF)
     = Some (HAL_ERROR, power_up 0xFF)"
  using page_program_rejects_bad_size[of 0 "sim good_knobs" TEST_ADDR "[]" "power_up 0xFF"]
    page_program_rejects_bad_size[of 257 "sim good_knobs" TEST_ADDR "replicate 257 0"
      "power_up 0xFF"]
  by (simp add: TEST_PAGE_SIZE_def)

text \<open>
  C10. \<^verbatim>\<open>QSPI_WaitWhileBusy\<close> is a do-while loop: for every timeout, 0 included, the
  status register is read before the deadline is looked at. If that first read succeeds
  and sees WIP clear the result is \<^verbatim>\<open>HAL_OK\<close>, in the world the read leaves; and
  whatever the function returns, the read-status command is the first thing it put on
  the bus.
\<close>

theorem wait_while_busy_first_poll:
  assumes "call_GetTick p w = (start, w0)" and "QSPI_ReadStatus p 0 w0 = (st, sr, w1)"
  shows "(st = HAL_OK \<and> sr AND SR_WIP_MASK = 0
            \<longrightarrow> QSPI_WaitWhileBusy p timeout_ms w = Some (HAL_OK, w1))
       \<and> (\<forall>y. QSPI_WaitWhileBusy p timeout_ms w = Some y \<longrightarrow> polled p w (snd y))"
proof (intro conjI impI allI)
  assume "st = HAL_OK \<and> sr AND SR_WIP_MASK = 0"
  then show "QSPI_WaitWhileBusy p timeout_ms w = Some (HAL_OK, w1)"
    using assms WaitWhileBusy_loop_clear[of p 0 w0 timeout_ms start]
    by (simp add: QSPI_WaitWhileBusy_def poll_zero)
next
  fix y
  assume "QSPI_WaitWhileBusy p timeout_ms w = Some y"
  then have "WaitWhileBusy_loop p timeout_ms start 0 w0 = Some y"
    using assms(1) by (simp add: QSPI_WaitWhileBusy_def)
  then have "polled p w0 (snd y)" by (rule WaitWhileBusy_loop_out)
  then show "polled p w (snd y)"
    using call_GetTick_out[OF assms(1)] by (simp add: polled_def)
qed

theorem wait_while_busy_first_poll_witness:
  "QSPI_WaitWhileBusy (sim good_knobs) 0 (busy_world 0)
     = Some (HAL_OK, snd (snd (QSPI_ReadStatus (sim good_knobs) 0 (busy_world 0))))
   \<and> bus (snd (snd (QSPI_ReadStatus (sim good_knobs) 0 (busy_world 0))))
     = [BusCommand (read_status_cmd (sim good_knobs)) HAL_OK, BusReceive [0] HAL_OK]"
proof -
  have s: "call_GetTick (sim good_knobs) (busy_world 0) = (0, busy_world 0)"
    by (simp add: call_GetTick_def sim_def busy_world_def)
  have r: "QSPI_ReadStatus (sim good_knobs) 0 (busy_world 0)
           = (HAL_OK, 0, snd (snd (QSPI_ReadStatus (sim good_knobs) 0 (busy_world 0))))"
    by code_simp
  have b: "bus (snd (snd (QSPI_ReadStatus (sim good_knobs) 0 (busy_world 0))))
     = [BusCommand (read_status_cmd (sim good_knobs)) HAL_OK, BusReceive [0] HAL_OK]"
    by code_simp
  show ?thesis
    using wait_while_busy_first_poll[OF s r, of 0] b by simp
qed

lemma poll_not_mutating: "is_poll_event p e \<Longrightarrow> \<not> data_mutating e"
  by (cases e) (auto simp: read_status_cmd_def erase_cmd_def program_cmd_def cmd_zero_def)

lemma simple_not_mutating: "\<not> data_mutating (BusCommand (simple_cmd i) st)"
  by (auto simp: simple_cmd_def erase_cmd_def program_cmd_def cmd_zero_def)

lemma polled_not_mutating:
  assumes "polled p w w'"
  shows "list_all (\<lambda>e. \<not> data_mutating e) (bus_since w w')"
proof -
  obtain st evs where b: "bus w' = bus w @ BusCommand (read_status_cmd p) st # evs"
    and l: "list_all (is_poll_event p) evs"
    using assms by (auto simp: polled_def)
  have "\<not> data_mutating (BusCommand (read_status_cmd p) st)"
    by (rule poll_not_mutating) simp
  then show ?thesis
    using l by (auto simp: bus_since_def b list_all_iff dest: poll_not_mutating)
qed

text \<open>
  C4. WEL never latches: the write-enable command is accepted, every poll up to the
  handshake deadline reads a status with WEL clear, and the tick read after poll \<open>n\<close> is
  the first to reach \<^verbatim>\<open>QSPI_TIMEOUT\<close>. Then \<^verbatim>\<open>QSPI_WriteEnable\<close> returns
  \<^verbatim>\<open>HAL_TIMEOUT\<close>, \<^verbatim>\<open>QSPI_Erase4K_4B\<close> and \<^verbatim>\<open>QSPI_PageProgram_4B\<close> fail in the
  world the handshake leaves (or, for a rejected size, in the world they were called in),
  and nothing they put on the bus is an erase command, a program command or data.
\<close>

theorem wel_never_latches:
  assumes "QSPI_SendSimple p (CMD_WRITE_ENABLE p) w = (HAL_OK, w1)"
    and "call_GetTick p w1 = (start, w2)"
    and "\<forall>i<n. poll_goes_on p (0, w2) SR_WEL_MASK True start (QSPI_TIMEOUT p) i"
    and "poll_status p (0, w2) n = HAL_OK"
    and "poll_sr p (0, w2) n AND SR_WEL_MASK = 0"
    and "\<not> poll_tick p (0, w2) n - start < QSPI_TIMEOUT p"
  shows "QSPI_WriteEnable p w
           = Some (HAL_TIMEOUT, snd (call_GetTick p (poll_world p (0, w2) n)))
       \<and> QSPI_Erase4K_4B p addr w
           = Some (HAL_ERROR, snd (call_GetTick p (poll_world p (0, w2) n)))
       \<and> QSPI_PageProgram_4B p addr data size' w
           = Some (HAL_ERROR, if size' = 0 \<or> TEST_PAGE_SIZE < size' then w
                              else snd (call_GetTick p (poll_world p (0, w2) n)))
       \<and> list_all (\<lambda>e. \<not> data_mutating e)
            (bus_since w (snd (call_GetTick p (poll_world p (0, w2) n))))"
proof -
  let ?w' = "snd (call_GetTick p (poll_world p (0, w2) n))"
  have loop: "WriteEnable_loop p start 0 w2 = Some (HAL_TIMEOUT, ?w')"
    using WriteEnable_loop_returns_timeout[OF assms(3,4,5,6)] by simp
  have we: "QSPI_WriteEnable p w = Some (HAL_TIMEOUT, ?w')"
    using assms(1,2) loop by (simp add: QSPI_WriteEnable_def)
  have "polled p w2 ?w'"
    using WriteEnable_loop_out[OF loop] by simp
  then have l2: "list_all (\<lambda>e. \<not> data_mutating e) (bus_since w2 ?w')"
    by (rule polled_not_mutating)
  have b2: "bus w2 = bus w @ [BusCommand (simple_cmd (CMD_WRITE_ENABLE p)) HAL_OK]"
    using call_Command_out[of p "simple_cmd (CMD_WRITE_ENABLE p)" w HAL_OK w1] assms(1)
      call_GetTick_out[OF assms(2)]
    by (simp add: QSPI_SendSimple_def)
  obtain st evs where b': "bus ?w' = bus w2 @ BusCommand (read_status_cmd p) st # evs"
    using \<open>polled p w2 ?w'\<close> by (auto simp: polled_def)
  have "bus_since w ?w'
        = BusCommand (simple_cmd (CMD_WRITE_ENABLE p)) HAL_OK # bus_since w2 ?w'"
    by (simp add: bus_since_def b' b2)
  then have l: "list_all (\<lambda>e. \<not> data_mutating e) (bus_since w ?w')"
    using l2 simple_not_mutating by simp
  show ?thesis
    using we l by (simp add: QSPI_Erase4K_4B_def QSPI_PageProgram_4B_def)
qed

theorem wel_never_latches_witness:
  "map_option fst (QSPI_WriteEnable (sim no_wel_knobs) (power_up 0xFF)) = Some HAL_TIMEOUT
   \<and> map_option fst (QSPI_Erase4K_4B (sim no_wel_knobs) TEST_ADDR (power_up 0xFF)) = Some HAL_ERROR
   \<and> map_option fst (QSPI_PageProgram_4B (sim no_wel_knobs) TEST_ADDR test_pattern
        TEST_PAGE_SIZE (power_up 0xFF)) = Some HAL_ERROR
   \<and> list_all (\<lambda>e. \<not> data_mutating e)
        (bus (snd (the (QSPI_Erase4K_4B (sim no_wel_knobs) TEST_ADDR (power_up 0xFF)))))"
proof -
  let ?w1 = "snd (QSPI_SendSimple (sim no_wel_knobs) (CMD_WRITE_ENABLE (sim no_wel_knobs))
                (power_up 0xFF))"
  have a1: "QSPI_SendSimple (sim no_wel_knobs) (CMD_WRITE_ENABLE (sim no_wel_knobs))
              (power_up 0xFF) = (HAL_OK, ?w1)"
    by code_simp
  have a2: "call_GetTick (sim no_wel_knobs) ?w1 = (1, ?w1)"
    by code_simp
  have a3: "\<forall>i<1. poll_goes_on (sim no_wel_knobs) (0, ?w1) SR_WEL_MASK True 1
              (QSPI_TIMEOUT (sim no_wel_knobs)) i"
    by code_simp
  have a4: "poll_status (sim no_wel_knobs) (0, ?w1) 1 = HAL_OK"
    by code_simp
  have a5: "poll_sr (sim no_wel_knobs) (0, ?w1) 1 AND SR_WEL_MASK = 0"
    by code_simp
  have a6: "\<not> poll_tick (sim no_wel_knobs) (0, ?w1) 1 - 1 < QSPI_TIMEOUT (sim no_wel_knobs)"
    by code_simp
  have sz: "\<not> (TEST_PAGE_SIZE = 0 \<or> TEST_PAGE_SIZE < TEST_PAGE_SIZE)"
    by (simp add: TEST_PAGE_SIZE_def)
  have b0: "bus (power_up 0xFF) = []"
    by (simp add: power_up_def)
  show ?thesis
    using wel_never_latches[OF a1 a2 a3 a4 a5 a6, of TEST_ADDR test_pattern TEST_PAGE_SIZE] sz
    by (simp add: bus_since_def b0)
qed

text \<open>
  C1. The guard of \<^verbatim>\<open>QSPI_PageProgram_4B\<close> looks at the size alone. Two bytes written
  at 0x000010FF end in the next page, and on a working device the function performs the
  write-enable handshake, issues the program command for that address and transmits both
  bytes, returning \<^verbatim>\<open>HAL_OK\<close>.
\<close>

theorem page_program_crosses_boundary:
  "map_option fst
     (QSPI_PageProgram_4B (sim good_knobs) 0x10FF [0x11, 0x22] 2 (power_up 0xFF))
   = Some HAL_OK
   \<and> map_option (bus \<circ> snd)
     (QSPI_PageProgram_4B (sim good_knobs) 0x10FF [0x11, 0x22] 2 (power_up 0xFF))
   = Some [BusCommand (simple_cmd 0x06) HAL_OK,
           BusCommand (read_status_cmd (sim good_knobs)) HAL_OK,
           BusReceive [0x02] HAL_OK,
           BusCommand (program_cmd 0x10FF 2) HAL_OK,
           BusTransmit [0x11, 0x22] HAL_OK]"
  by code_simp

text \<open>
  C6, as stated, fails on a device whose WEL never latches: the handshake returns
  \<^verbatim>\<open>HAL_TIMEOUT\<close>, and each of the three operations built on it returns
  \<^verbatim>\<open>HAL_ERROR\<close>.
\<close>

theorem engine_timeout_kind_counterexample:
  "map_option fst (QSPI_WriteEnable (sim no_wel_knobs) (power_up 0xFF)) = Some HAL_TIMEOUT
   \<and> map_option fst (QSPI_Enable4ByteAddressing (sim no_wel_knobs) (power_up 0xFF)) = Some HAL_ERROR
   \<and> map_option fst (QSPI_Erase4K_4B (sim no_wel_knobs) TEST_ADDR (power_up 0xFF)) = Some HAL_ERROR
   \<and> map_option fst (QSPI_PageProgram_4B (sim no_wel_knobs) TEST_ADDR test_pattern TEST_PAGE_SIZE
        (power_up 0xFF)) = Some HAL_ERROR"
  by code_simp

text \<open>
  C6, amended. When the write-enable handshake inside \<^verbatim>\<open>QSPI_Enable4ByteAddressing\<close>,
  \<^verbatim>\<open>QSPI_Erase4K_4B\<close> or \<^verbatim>\<open>QSPI_PageProgram_4B\<close> (called with an accepted size) times
  out, the operation stops there and reports the failure to its caller as \<^verbatim>\<open>HAL_ERROR\<close>,
  in the world the handshake leaves.
\<close>

theorem engine_timeout_becomes_error:
  "QSPI_WriteEnable p w = Some (HAL_TIMEOUT, w1) \<Longrightarrow>
   QSPI_Enable4ByteAddressing p w = Some (HAL_ERROR, w1)
   \<and> QSPI_Erase4K_4B p addr w = Some (HAL_ERROR, w1)
   \<and> (size' \<noteq> 0 \<and> size' \<le> TEST_PAGE_SIZE
        \<longrightarrow> QSPI_PageProgram_4B p addr data size' w = Some (HAL_ERROR, w1))"
  by (auto simp: QSPI_Enable4ByteAddressing_def QSPI_Erase4K_4B_def QSPI_PageProgram_4B_def)

theorem engine_timeout_becomes_error_witness:
  "QSPI_WriteEnable (sim no_wel_knobs) (busy_world 0)
     = Some (HAL_TIMEOUT, snd (the (QSPI_WriteEnable (sim no_wel_knobs) (busy_world 0))))
   \<and> QSPI_Enable4ByteAddressing (sim no_wel_knobs) (busy_world 0)
     = Some (HAL_ERROR, snd (the (QSPI_WriteEnable (sim no_wel_knobs) (busy_world 0))))
   \<and> QSPI_Erase4K_4B (sim no_wel_knobs) TEST_ADDR (busy_world 0)
     = Some (HAL_ERROR, snd (the (QSPI_WriteEnable (sim no_wel_knobs) (busy_world 0))))
   \<and> QSPI_PageProgram_4B (sim no_wel_knobs) TEST_ADDR [0x5A] 1 (busy_world 0)
     = Some (HAL_ERROR, snd (the (QSPI_WriteEnable (sim no_wel_knobs) (busy_world 0))))"
proof -
  have h: "QSPI_WriteEnable (sim no_wel_knobs) (busy_world 0)
     = Some (HAL_TIMEOUT, snd (the (QSPI_WriteEnable (sim no_wel_knobs) (busy_world 0))))"
    by code_simp
  show ?thesis
    using engine_timeout_becomes_error[OF h, of TEST_ADDR 1 "[0x5A]"] h
    by (simp add: TEST_PAGE_SIZE_def)
qed


section \<open>Properties of the self-test\<close>

lemma find_upt_least:
  "i < n \<Longrightarrow> P i \<Longrightarrow> \<forall>j<i. \<not> P j \<Longrightarrow> find P [0..<n] = Some i"
  by (auto simp: find_Some_iff intro!: exI[of _ i])

lemma find_upt_None: "(\<forall>i<n. \<not> P i) \<Longrightarrow> find P [0..<n] = None"
  by (simp add: find_None_iff)

lemma find_upt_Some: "find P [0..<n] = Some i \<Longrightarrow> i < n \<and> P i \<and> (\<forall>j<i. \<not> P j)"
  by (auto simp: find_Some_iff)

lemma find_upt_ex: "\<exists>i<n. P i \<Longrightarrow> \<exists>i. find P [0..<n] = Some i"
  by (cases "find P [0..<n]") (auto simp: find_None_iff)

lemma length_test_pattern: "length test_pattern = unat TEST_PAGE_SIZE"
  by (simp add: test_pattern_def)

lemma length_fresh_buf: "length fresh_buf = unat TEST_PAGE_SIZE"
  by (simp add: fresh_buf_def)

lemma QSPI_Read_4B_out:
  assumes "QSPI_Read_4B p a buf n w = (HAL_OK, buf', w')"
  shows "bus w' = bus w @ [BusCommand (read_cmd a n) HAL_OK, BusReceive (take (unat n) buf') HAL_OK]
         \<and> console w' = console w \<and> length buf' = max (unat n) (length buf)"
proof (cases "call_Command p (read_cmd a n) w")
  case (Pair st1 w1)
  note c = call_Command_out[OF Pair]
  have ok: "st1 = HAL_OK"
    using assms Pair by (auto simp: QSPI_Read_4B_def split: if_splits)
  then have r: "call_Receive p (unat n) buf w1 = (HAL_OK, buf', w')"
    using assms Pair by (simp add: QSPI_Read_4B_def)
  show ?thesis
    using c ok call_Receive_out[OF r] by simp
qed

lemma page_read_length:
  "QSPI_Read_4B p a fresh_buf TEST_PAGE_SIZE w = (HAL_OK, buf', w') \<Longrightarrow>
   length buf' = unat TEST_PAGE_SIZE"
  using QSPI_Read_4B_out[of p a fresh_buf TEST_PAGE_SIZE w buf' w']
  by (simp add: length_fresh_buf)

lemma take_neq_ex:
  assumes "length xs = n" "length ys = n" "xs \<noteq> ys"
  shows "\<exists>i<n. xs ! i \<noteq> ys ! i"
  using assms by (auto simp: list_eq_iff_nth_eq)

lemma QSPI_SendSimple_out:
  "QSPI_SendSimple p i w = (st, w') \<Longrightarrow>
   bus w' = bus w @ [BusCommand (simple_cmd i) st] \<and> console w' = console w"
  by (simp add: QSPI_SendSimple_def call_Command_out)

lemma QSPI_ReadID_out:
  assumes "QSPI_ReadID p buf w = (st, buf', w')"
  shows "\<exists>evs. bus w' = bus w @ evs \<and> list_all (\<lambda>e. \<not> data_mutating e) evs"
proof (cases "call_Command p (read_id_cmd p) w")
  case (Pair st1 w1)
  note c = call_Command_out[OF Pair]
  have nm: "\<not> data_mutating (BusCommand (read_id_cmd p) st1)"
    by (auto simp: read_id_cmd_def erase_cmd_def program_cmd_def cmd_zero_def)
  show ?thesis
  proof (cases "st1 = HAL_OK")
    case False
    then have "w' = w1" using assms Pair by (simp add: QSPI_ReadID_def)
    then show ?thesis using c nm by simp
  next
    case True
    then have r: "call_Receive p 3 buf w1 = (st, buf', w')"
      using assms Pair by (simp add: QSPI_ReadID_def)
    show ?thesis using c nm call_Receive_out[OF r] by simp
  qed
qed

lemma fail_fast_reset:
  "\<forall>st1 w1. QSPI_SendSimple p (CMD_RESET_ENABLE p) (printf SelfTestStart w) = (st1, w1) \<longrightarrow>
     (st1 \<noteq> HAL_OK \<longrightarrow> MT25Q_RunSelfTest p w = Some (printf ResetFailed w1))
     \<and> (st1 = HAL_OK \<longrightarrow>
        (\<forall>st2 w2. QSPI_SendSimple p (CMD_RESET_MEMORY p) w1 = (st2, w2) \<longrightarrow>
           (st2 \<noteq> HAL_OK \<longrightarrow> MT25Q_RunSelfTest p w = Some (printf ResetFailed w2))
           \<and> (st2 = HAL_OK \<longrightarrow>
              (\<forall>st3 id' w3. QSPI_ReadID p [0, 0, 0] (call_Delay p 1 w2) = (st3, id', w3) \<longrightarrow>
                 (st3 \<noteq> HAL_OK \<longrightarrow>
                    MT25Q_RunSelfTest p w = Some (printf ReadIDFailed w3)
                    \<and> list_all (\<lambda>e. \<not> data_mutating e) (bus_since w (printf ReadIDFailed w3)))
                 \<and> (st3 = HAL_OK \<longrightarrow>
                    MT25Q_RunSelfTest p w
                    = RunSelfTest_from_4byte p
                        (printf (JedecID (id' ! 0) (id' ! 1) (id' ! 2)) w3))))))"
proof (intro allI impI conjI)
  fix st1 w1 st2 w2 st3 id' w3
  assume a: "QSPI_SendSimple p (CMD_RESET_ENABLE p) (printf SelfTestStart w) = (st1, w1)"
    "QSPI_SendSimple p (CMD_RESET_MEMORY p) w1 = (st2, w2)"
    "QSPI_ReadID p [0, 0, 0] (call_Delay p 1 w2) = (st3, id', w3)"
  obtain evs where e: "bus w3 = bus (call_Delay p 1 w2) @ evs"
    "list_all (\<lambda>e. \<not> data_mutating e) evs"
    using QSPI_ReadID_out[OF a(3)] by blast
  have "bus w3 = bus w @ BusCommand (simple_cmd (CMD_RESET_ENABLE p)) st1
          # BusCommand (simple_cmd (CMD_RESET_MEMORY p)) st2 # evs"
    using QSPI_SendSimple_out[OF a(1)] QSPI_SendSimple_out[OF a(2)] e(1)
    by (simp add: call_Delay_out printf_out)
  then show "list_all (\<lambda>e. \<not> data_mutating e) (bus_since w (printf ReadIDFailed w3))"
    using e(2) simple_not_mutating by (simp add: bus_since_def printf_out)
qed (simp_all add: MT25Q_RunSelfTest_def)

lemma fail_fast_4byte:
  "\<forall>st1 w1. QSPI_Enable4ByteAddressing p w = Some (st1, w1) \<longrightarrow>
     (st1 \<noteq> HAL_OK \<longrightarrow> RunSelfTest_from_4byte p w = Some (printf Enter4ByteFailed w1))
     \<and> (st1 = HAL_OK \<longrightarrow>
        (\<forall>st2 w2. QSPI_WaitWhileBusy p 100 w1 = Some (st2, w2) \<longrightarrow>
           (st2 \<noteq> HAL_OK \<longrightarrow> RunSelfTest_from_4byte p w = Some (printf BusyAfter4B w2))
           \<and> (st2 = HAL_OK \<longrightarrow> RunSelfTest_from_4byte p w = RunSelfTest_from_erase p w2)))"
  by (simp add: RunSelfTest_from_4byte_def)

lemma fail_fast_erase:
  "\<forall>st1 w1. QSPI_Erase4K_4B p TEST_ADDR (printf (Erasing TEST_ADDR) w) = Some (st1, w1) \<longrightarrow>
     (st1 \<noteq> HAL_OK \<longrightarrow> RunSelfTest_from_erase p w = Some (printf EraseFailed w1))
     \<and> (st1 = HAL_OK \<longrightarrow>
        (\<forall>st2 w2. QSPI_WaitWhileBusy p 5000 w1 = Some (st2, w2) \<longrightarrow>
           (st2 \<noteq> HAL_OK \<longrightarrow> RunSelfTest_from_erase p w = Some (printf EraseTimeout w2))
           \<and> (st2 = HAL_OK \<longrightarrow>
              RunSelfTest_from_erase p w = RunSelfTest_from_erase_verify p w2)))"
  by (simp add: RunSelfTest_from_erase_def)

lemma fail_fast_erase_verify:
  "\<forall>st1 verify_buf w1.
     QSPI_Read_4B p TEST_ADDR fresh_buf TEST_PAGE_SIZE w = (st1, verify_buf, w1) \<longrightarrow>
     (st1 \<noteq> HAL_OK \<longrightarrow>
        RunSelfTest_from_erase_verify p w = Some (printf ReadAfterEraseFailed w1))
     \<and> (st1 = HAL_OK \<longrightarrow>
        ((\<exists>i<unat TEST_PAGE_SIZE. verify_buf ! i \<noteq> 0xFF) \<longrightarrow>
           (\<exists>i b. RunSelfTest_from_erase_verify p w = Some (printf (EraseVerifyFailed i b) w1)))
        \<and> ((\<forall>i<unat TEST_PAGE_SIZE. verify_buf ! i = 0xFF) \<longrightarrow>
           RunSelfTest_from_erase_verify p w = RunSelfTest_from_program p (printf EraseOK w1)))"
proof (intro allI impI conjI)
  fix st1 verify_buf w1
  assume a: "QSPI_Read_4B p TEST_ADDR fresh_buf TEST_PAGE_SIZE w = (st1, verify_buf, w1)"
    and ok: "st1 = HAL_OK"
  {
    assume "\<exists>i<unat TEST_PAGE_SIZE. verify_buf ! i \<noteq> 0xFF"
    then obtain i where "find (\<lambda>i. verify_buf ! i \<noteq> 0xFF) [0..<unat TEST_PAGE_SIZE] = Some i"
      using find_upt_ex[of "unat TEST_PAGE_SIZE" "\<lambda>i. verify_buf ! i \<noteq> 0xFF"] by blast
    then show "\<exists>i b. RunSelfTest_from_erase_verify p w
                     = Some (printf (EraseVerifyFailed i b) w1)"
      using a ok by (auto simp: RunSelfTest_from_erase_verify_def)
  }
  {
    assume "\<forall>i<unat TEST_PAGE_SIZE. verify_buf ! i = 0xFF"
    then have "find (\<lambda>i. verify_buf ! i \<noteq> 0xFF) [0..<unat TEST_PAGE_SIZE] = None"
      by (intro find_upt_None) simp
    then show "RunSelfTest_from_erase_verify p w = RunSelfTest_from_program p (printf EraseOK w1)"
      using a ok by (simp add: RunSelfTest_from_erase_verify_def)
  }
qed (simp_all add: RunSelfTest_from_erase_verify_def)

lemma fail_fast_program:
  "\<forall>st1 w1. QSPI_PageProgram_4B p TEST_ADDR test_pattern TEST_PAGE_SIZE
              (printf (Programming TEST_PAGE_SIZE TEST_ADDR) w) = Some (st1, w1) \<longrightarrow>
     (st1 \<noteq> HAL_OK \<longrightarrow> RunSelfTest_from_program p w = Some (printf ProgramFailed w1))
     \<and> (st1 = HAL_OK \<longrightarrow>
        (\<forall>st2 w2. QSPI_WaitWhileBusy p 100 w1 = Some (st2, w2) \<longrightarrow>
           (st2 \<noteq> HAL_OK \<longrightarrow> RunSelfTest_from_program p w = Some (printf ProgramTimeout w2))
           \<and> (st2 = HAL_OK \<longrightarrow>
              RunSelfTest_from_program p w
              = Some (RunSelfTest_from_readback p test_pattern w2))))"
  by (simp add: RunSelfTest_from_program_def)

lemma readback_mismatch:
  assumes a: "QSPI_Read_4B p TEST_ADDR fresh_buf TEST_PAGE_SIZE w = (HAL_OK, in', w1)"
    and i: "i < unat TEST_PAGE_SIZE" "test_pattern ! i \<noteq> in' ! i"
      "\<forall>j<i. test_pattern ! j = in' ! j"
  shows "RunSelfTest_from_readback p test_pattern w
         = printf (VerifyMismatch i (test_pattern ! i) (in' ! i)) w1"
proof -
  have len: "length in' = unat TEST_PAGE_SIZE" by (rule page_read_length[OF a])
  have ne: "take (unat TEST_PAGE_SIZE) test_pattern \<noteq> take (unat TEST_PAGE_SIZE) in'"
    using i(1,2) len length_test_pattern by auto
  have f: "find (\<lambda>i. test_pattern ! i \<noteq> in' ! i) [0..<unat TEST_PAGE_SIZE] = Some i"
    using i by (intro find_upt_least) auto
  show ?thesis
    using ne f a by (simp add: RunSelfTest_from_readback_def)
qed

lemma fail_fast_readback:
  "\<forall>st1 in' w1. QSPI_Read_4B p TEST_ADDR fresh_buf TEST_PAGE_SIZE w = (st1, in', w1) \<longrightarrow>
     (st1 \<noteq> HAL_OK \<longrightarrow>
        RunSelfTest_from_readback p test_pattern w = printf ReadAfterProgramFailed w1)
     \<and> (st1 = HAL_OK \<longrightarrow>
        (in' \<noteq> test_pattern \<longrightarrow>
           (\<exists>i e b. RunSelfTest_from_readback p test_pattern w
                    = printf (VerifyMismatch i e b) w1))
        \<and> (in' = test_pattern \<longrightarrow>
           RunSelfTest_from_readback p test_pattern w = printf ProgramVerifyOK w1))"
proof (intro allI impI conjI)
  fix st1 in' w1
  assume a: "QSPI_Read_4B p TEST_ADDR fresh_buf TEST_PAGE_SIZE w = (st1, in', w1)"
    and ok: "st1 = HAL_OK"
  {
    assume ne: "in' \<noteq> test_pattern"
    have len: "length in' = unat TEST_PAGE_SIZE"
      using a ok page_read_length by blast
    define P where "P = (\<lambda>i. test_pattern ! i \<noteq> in' ! i)"
    have "\<exists>i<unat TEST_PAGE_SIZE. P i"
      using take_neq_ex[OF length_test_pattern len] ne by (auto simp: P_def)
    then obtain i where i: "i < unat TEST_PAGE_SIZE" "P i" "\<forall>j<i. \<not> P j"
      using exists_least_iff[of "\<lambda>i. i < unat TEST_PAGE_SIZE \<and> P i"]
      by (metis (no_types, lifting) less_trans)
    then show "\<exists>i e b. RunSelfTest_from_readback p test_pattern w
                    = printf (VerifyMismatch i e b) w1"
      using readback_mismatch[of p w in' w1 i] a ok by (auto simp: P_def)
  }
  {
    assume "in' = test_pattern"
    then show "RunSelfTest_from_readback p test_pattern w = printf ProgramVerifyOK w1"
      using a ok by (simp add: RunSelfTest_from_readback_def)
  }
qed (simp_all add: RunSelfTest_from_readback_def)

text \<open>
  C7. The self-test is fail-fast. Each conjunct covers one part of
  \<^verbatim>\<open>MT25Q_RunSelfTest\<close>, started in any world \<open>w\<close>: when a call of that part returns a
  status other than \<^verbatim>\<open>HAL_OK\<close>, or a check of that part finds a wrong byte, the whole
  run is over in the world that call left, with only the failure line added; only when
  every call of the part succeeded does the run go on with the next part. In particular,
  when the read-identity call fails after a successful reset, the run ends there and no
  erase command, program command or data has reached the bus.
\<close>

theorem selftest_fail_fast:
  "(\<forall>st1 w1. QSPI_SendSimple p (CMD_RESET_ENABLE p) (printf SelfTestStart w) = (st1, w1) \<longrightarrow>
     (st1 \<noteq> HAL_OK \<longrightarrow> MT25Q_RunSelfTest p w = Some (printf ResetFailed w1))
     \<and> (st1 = HAL_OK \<longrightarrow>
        (\<forall>st2 w2. QSPI_SendSimple p (CMD_RESET_MEMORY p) w1 = (st2, w2) \<longrightarrow>
           (st2 \<noteq> HAL_OK \<longrightarrow> MT25Q_RunSelfTest p w = Some (printf ResetFailed w2))
           \<and> (st2 = HAL_OK \<longrightarrow>
              (\<forall>st3 id' w3. QSPI_ReadID p [0, 0, 0] (call_Delay p 1 w2) = (st3, id', w3) \<longrightarrow>
                 (st3 \<noteq> HAL_OK \<longrightarrow>
                    MT25Q_RunSelfTest p w = Some (printf ReadIDFailed w3)
                    \<and> list_all (\<lambda>e. \<not> data_mutating e) (bus_since w (printf ReadIDFailed w3)))
                 \<and> (st3 = HAL_OK \<longrightarrow>
                    MT25Q_RunSelfTest p w
                    = RunSelfTest_from_4byte p
                        (printf (JedecID (id' ! 0) (id' ! 1) (id' ! 2)) w3)))))))
   \<and> (\<forall>st1 w1. QSPI_Enable4ByteAddressing p w = Some (st1, w1) \<longrightarrow>
     (st1 \<noteq> HAL_OK \<longrightarrow> RunSelfTest_from_4byte p w = Some (printf Enter4ByteFailed w1))
     \<and> (st1 = HAL_OK \<longrightarrow>
        (\<forall>st2 w2. QSPI_WaitWhileBusy p 100 w1 = Some (st2, w2) \<longrightarrow>
           (st2 \<noteq> HAL_OK \<longrightarrow> RunSelfTest_from_4byte p w = Some (printf BusyAfter4B w2))
           \<and> (st2 = HAL_OK \<longrightarrow> RunSelfTest_from_4byte p w = RunSelfTest_from_erase p w2))))
   \<and> (\<forall>st1 w1. QSPI_Erase4K_4B p TEST_ADDR (printf (Erasing TEST_ADDR) w) = Some (st1, w1) \<longrightarrow>
     (st1 \<noteq> HAL_OK \<longrightarrow> RunSelfTest_from_erase p w = Some (printf EraseFailed w1))
     \<and> (st1 = HAL_OK \<longrightarrow>
        (\<forall>st2 w2. QSPI_WaitWhileBusy p 5000 w1 = Some (st2, w2) \<longrightarrow>
           (st2 \<noteq> HAL_OK \<longrightarrow> RunSelfTest_from_erase p w = Some (printf EraseTimeout w2))
           \<and> (st2 = HAL_OK \<longrightarrow>
              RunSelfTest_from_erase p w = RunSelfTest_from_erase_verify p w2))))
   \<and> (\<forall>st1 verify_buf w1.
     QSPI_Read_4B p TEST_ADDR fresh_buf TEST_PAGE_SIZE w = (st1, verify_buf, w1) \<longrightarrow>
     (st1 \<noteq> HAL_OK \<longrightarrow>
        RunSelfTest_from_erase_verify p w = Some (printf ReadAfterEraseFailed w1))
     \<and> (st1 = HAL_OK \<longrightarrow>
        ((\<exists>i<unat TEST_PAGE_SIZE. verify_buf ! i \<noteq> 0xFF) \<longrightarrow>
           (\<exists>i b. RunSelfTest_from_erase_verify p w = Some (printf (EraseVerifyFailed i b) w1)))
        \<and> ((\<forall>i<unat TEST_PAGE_SIZE. verify_buf ! i = 0xFF) \<longrightarrow>
           RunSelfTest_from_erase_verify p w = RunSelfTest_from_program p (printf EraseOK w1))))
   \<and> (\<forall>st1 w1. QSPI_PageProgram_4B p TEST_ADDR test_pattern TEST_PAGE_SIZE
              (printf (Programming TEST_PAGE_SIZE TEST_ADDR) w) = Some (st1, w1) \<longrightarrow>
     (st1 \<noteq> HAL_OK \<longrightarrow> RunSelfTest_from_program p w = Some (printf ProgramFailed w1))
     \<and> (st1 = HAL_OK \<longrightarrow>
        (\<forall>st2 w2. QSPI_WaitWhileBusy p 100 w1 = Some (st2, w2) \<longrightarrow>
           (st2 \<noteq> HAL_OK \<longrightarrow> RunSelfTest_from_program p w = Some (printf ProgramTimeout w2))
           \<and> (st2 = HAL_OK \<longrightarrow>
              RunSelfTest_from_program p w
              = Some (RunSelfTest_from_readback p test_pattern w2)))))
   \<and> (\<forall>st1 in' w1. QSPI_Read_4B p TEST_ADDR fresh_buf TEST_PAGE_SIZE w = (st1, in', w1) \<longrightarrow>
     (st1 \<noteq> HAL_OK \<longrightarrow>
        RunSelfTest_from_readback p test_pattern w = printf ReadAfterProgramFailed w1)
     \<and> (st1 = HAL_OK \<longrightarrow>
        (in' \<noteq> test_pattern \<longrightarrow>
           (\<exists>i e b. RunSelfTest_from_readback p test_pattern w
                    = printf (VerifyMismatch i e b) w1))
        \<and> (in' = test_pattern \<longrightarrow>
           RunSelfTest_from_readback p test_pattern w = printf ProgramVerifyOK w1)))"
  by (intro conjI fail_fast_reset fail_fast_4byte fail_fast_erase fail_fast_erase_verify
        fail_fast_program fail_fast_readback)

theorem selftest_fail_fast_witness:
  "map_option console (MT25Q_RunSelfTest (sim fail2_knobs) (power_up 0xFF))
     = Some [SelfTestStart, ReadIDFailed]
   \<and> map_option bus (MT25Q_RunSelfTest (sim fail2_knobs) (power_up 0xFF))
     = Some [BusCommand (simple_cmd 0x66) HAL_OK, BusCommand (simple_cmd 0x99) HAL_OK,
             BusCommand (read_id_cmd (sim fail2_knobs)) HAL_ERROR]
   \<and> map_option console (RunSelfTest_from_4byte (sim no_wel_knobs) (power_up 0xFF))
     = Some [Enter4ByteFailed]
   \<and> map_option console (RunSelfTest_from_erase (sim no_wel_knobs) (power_up 0xFF))
     = Some [Erasing TEST_ADDR, EraseFailed]"
proof -
  let ?S = "sim fail2_knobs"
  let ?w1 = "snd (QSPI_SendSimple ?S (CMD_RESET_ENABLE ?S) (printf SelfTestStart (power_up 0xFF)))"
  let ?w2 = "snd (QSPI_SendSimple ?S (CMD_RESET_MEMORY ?S) ?w1)"
  let ?w3 = "snd (snd (QSPI_ReadID ?S [0, 0, 0] (call_Delay ?S 1 ?w2)))"
  have s1: "QSPI_SendSimple ?S (CMD_RESET_ENABLE ?S) (printf SelfTestStart (power_up 0xFF))
            = (HAL_OK, ?w1)"
    by code_simp
  have s2: "QSPI_SendSimple ?S (CMD_RESET_MEMORY ?S) ?w1 = (HAL_OK, ?w2)"
    by code_simp
  have s3: "QSPI_ReadID ?S [0, 0, 0] (call_Delay ?S 1 ?w2) = (HAL_ERROR, [0, 0, 0], ?w3)"
    by code_simp
  have r: "MT25Q_RunSelfTest ?S (power_up 0xFF) = Some (printf ReadIDFailed ?w3)"
    using selftest_fail_fast[of ?S "power_up 0xFF"] s1 s2 s3 by simp
  have c: "console (printf ReadIDFailed ?w3) = [SelfTestStart, ReadIDFailed]"
    by code_simp
  have b: "bus (printf ReadIDFailed ?w3)
           = [BusCommand (simple_cmd 0x66) HAL_OK, BusCommand (simple_cmd 0x99) HAL_OK,
              BusCommand (read_id_cmd ?S) HAL_ERROR]"
    by code_simp
  let ?N = "sim no_wel_knobs"
  let ?v1 = "snd (the (QSPI_Enable4ByteAddressing ?N (power_up 0xFF)))"
  have e: "QSPI_Enable4ByteAddressing ?N (power_up 0xFF) = Some (HAL_ERROR, ?v1)"
    by code_simp
  have r2: "RunSelfTest_from_4byte ?N (power_up 0xFF) = Some (printf Enter4ByteFailed ?v1)"
    using selftest_fail_fast[of ?N "power_up 0xFF"] e by simp
  have c2: "console (printf Enter4ByteFailed ?v1) = [Enter4ByteFailed]"
    by code_simp
  let ?v2 = "snd (the (QSPI_Erase4K_4B ?N TEST_ADDR (printf (Erasing TEST_ADDR) (power_up 0xFF))))"
  have e3: "QSPI_Erase4K_4B ?N TEST_ADDR (printf (Erasing TEST_ADDR) (power_up 0xFF))
            = Some (HAL_ERROR, ?v2)"
    by code_simp
  have r3: "RunSelfTest_from_erase ?N (power_up 0xFF) = Some (printf EraseFailed ?v2)"
    using selftest_fail_fast[of ?N "power_up 0xFF"] e3 by simp
  have c3: "console (printf EraseFailed ?v2) = [Erasing TEST_ADDR, EraseFailed]"
    by code_simp
  show ?thesis
    by (simp add: r c b r2 c2 r3 c3)
qed


section \<open>The self-test on the simulated device\<close>

lemmas sim_defs = sim_def sim_Command_def sim_Receive_def sim_Transmit_def sim_tick_def
  sim_status_def quick_knobs_def call_Command_def call_Receive_def call_Transmit_def
  call_GetTick_def

lemmas cmd_defs = simple_cmd_def read_status_cmd_def read_id_cmd_def erase_cmd_def
  program_cmd_def read_cmd_def cmd_zero_def CMD_ENABLE_4BYTE_ADDR_def
  CMD_SUBSECTOR_ERASE_4K_4B_def CMD_PAGE_PROGRAM_4B_def CMD_READ_DATA_4B_def

text \<open>The device-side effect of one call, for the working device.\<close>

lemma quick_ReadStatus:
  "\<exists>w'. QSPI_ReadStatus (sim quick_knobs) sr w
        = (HAL_OK, (if clk (dev w) + 2 < busy_until (dev w) then 1 else 0)
                   OR (if wel (dev w) then 2 else 0), w')
      \<and> mem (dev w') = mem (dev w) \<and> wel (dev w') = wel (dev w)
      \<and> busy_until (dev w') = busy_until (dev w) \<and> clk (dev w') = clk (dev w) + 2
      \<and> console w' = console w"
  by (simp add: QSPI_ReadStatus_def sim_defs cmd_defs)


lemma quick_WriteEnable:
  "\<exists>w'. QSPI_WriteEnable (sim quick_knobs) w = Some (HAL_OK, w')
      \<and> mem (dev w') = mem (dev w) \<and> wel (dev w')
      \<and> busy_until (dev w') = busy_until (dev w) \<and> clk (dev w') = clk (dev w) + 3
      \<and> console w' = console w"
proof -
  let ?S = "sim quick_knobs"
  obtain w1 where s: "QSPI_SendSimple ?S (CMD_WRITE_ENABLE ?S) w = (HAL_OK, w1)"
    and w1: "mem (dev w1) = mem (dev w)" "wel (dev w1)" "busy_until (dev w1) = busy_until (dev w)"
      "clk (dev w1) = clk (dev w) + 1" "console w1 = console w"
    by (simp add: QSPI_SendSimple_def sim_defs cmd_defs)
  obtain start where t: "call_GetTick ?S w1 = (start, w1)"
    by (simp add: sim_defs)
  obtain sr w2 where r: "QSPI_ReadStatus ?S 0 w1 = (HAL_OK, sr, w2)"
    and sr: "sr = (if clk (dev w1) + 2 < busy_until (dev w1) then 1 else 0)
                  OR (if wel (dev w1) then 2 else 0)"
    and w2: "mem (dev w2) = mem (dev w1)" "wel (dev w2) = wel (dev w1)"
      "busy_until (dev w2) = busy_until (dev w1)" "clk (dev w2) = clk (dev w1) + 2"
      "console w2 = console w1"
    using quick_ReadStatus[of 0 w1] by blast
  have "sr AND SR_WEL_MASK \<noteq> 0"
    using w1(2) by (simp add: sr SR_WEL_MASK_def)
  then have "WriteEnable_loop ?S start 0 w1 = Some (HAL_OK, w2)"
    using WriteEnable_loop_set[of ?S 0 w1 start] r by (simp add: poll_zero)
  then have "QSPI_WriteEnable ?S w = Some (HAL_OK, w2)"
    using s t by (simp add: QSPI_WriteEnable_def)
  then show ?thesis
    using w1 w2 by simp
qed

lemma quick_WaitWhileBusy:
  assumes "busy_until (dev w) \<le> clk (dev w) + 2"
  shows "\<exists>w'. QSPI_WaitWhileBusy (sim quick_knobs) timeout_ms w = Some (HAL_OK, w')
      \<and> mem (dev w') = mem (dev w) \<and> wel (dev w') = wel (dev w)
      \<and> busy_until (dev w') = busy_until (dev w) \<and> clk (dev w') = clk (dev w) + 2
      \<and> console w' = console w"
proof -
  let ?S = "sim quick_knobs"
  obtain start where t: "call_GetTick ?S w = (start, w)"
    by (simp add: sim_defs)
  obtain sr w2 where r: "QSPI_ReadStatus ?S 0 w = (HAL_OK, sr, w2)"
    and sr: "sr = (if clk (dev w) + 2 < busy_until (dev w) then 1 else 0)
                  OR (if wel (dev w) then 2 else 0)"
    and w2: "mem (dev w2) = mem (dev w)" "wel (dev w2) = wel (dev w)"
      "busy_until (dev w2) = busy_until (dev w)" "clk (dev w2) = clk (dev w) + 2"
      "console w2 = console w"
    using quick_ReadStatus[of 0 w] by blast
  have "sr AND SR_WIP_MASK = 0"
    using assms by (simp add: sr SR_WIP_MASK_def)
  then have "WaitWhileBusy_loop ?S timeout_ms start 0 w = Some (HAL_OK, w2)"
    using WaitWhileBusy_loop_clear[of ?S 0 w timeout_ms start] r by (simp add: poll_zero)
  then have "QSPI_WaitWhileBusy ?S timeout_ms w = Some (HAL_OK, w2)"
    using t by (simp add: QSPI_WaitWhileBusy_def)
  then show ?thesis
    using w2 by simp
qed

lemma quick_Erase4K:
  "\<exists>w'. QSPI_Erase4K_4B (sim quick_knobs) addr w = Some (HAL_OK, w')
      \<and> mem (dev w') = (\<lambda>a. if drop_bit 12 a = drop_bit 12 addr then 0xFF else mem (dev w) a)
      \<and> busy_until (dev w') \<le> clk (dev w') + 2
      \<and> console w' = console w"
proof -
  let ?S = "sim quick_knobs"
  obtain w1 where e: "QSPI_WriteEnable ?S w = Some (HAL_OK, w1)"
    and w1: "mem (dev w1) = mem (dev w)" "wel (dev w1)" "console w1 = console w"
    using quick_WriteEnable[of w] by blast
  obtain w2 where c: "call_Command ?S (erase_cmd addr) w1 = (HAL_OK, w2)"
    and w2: "mem (dev w2)
             = (\<lambda>a. if drop_bit 12 a = drop_bit 12 addr then 0xFF else mem (dev w1) a)"
      "busy_until (dev w2) \<le> clk (dev w2) + 2" "console w2 = console w1"
    using w1(2) by (simp add: sim_defs cmd_defs)
  show ?thesis
    using e c w1 w2 by (simp add: QSPI_Erase4K_4B_def cong: if_cong)
qed

lemma quick_PageProgram:
  assumes "size' \<noteq> 0" "size' \<le> TEST_PAGE_SIZE"
  shows "\<exists>w'. QSPI_PageProgram_4B (sim quick_knobs) addr data size' w = Some (HAL_OK, w')
      \<and> mem (dev w') = write_page quick_knobs addr
           (word_of_nat (length (take (unat size') data))) (take (unat size') data) (mem (dev w))
      \<and> busy_until (dev w') \<le> clk (dev w') + 2
      \<and> console w' = console w"
proof -
  let ?S = "sim quick_knobs"
  obtain w1 where e: "QSPI_WriteEnable ?S w = Some (HAL_OK, w1)"
    and w1: "mem (dev w1) = mem (dev w)" "wel (dev w1)" "console w1 = console w"
    using quick_WriteEnable[of w] by blast
  obtain w2 where c: "call_Command ?S (program_cmd addr size') w1 = (HAL_OK, w2)"
    and w2: "mem (dev w2) = mem (dev w1)" "wel (dev w2)" "console w2 = console w1"
      "last_cmd (dev w2) = program_cmd addr size'"
    using w1(2) by (simp add: sim_defs cmd_defs)
  obtain w3 where t: "call_Transmit ?S (unat size') data w2 = (HAL_OK, w3)"
    and w3: "mem (dev w3) = write_page quick_knobs addr
           (word_of_nat (length (take (unat size') data))) (take (unat size') data) (mem (dev w2))"
      "busy_until (dev w3) \<le> clk (dev w3) + 2" "console w3 = console w2"
    using w2(2,4) by (simp add: sim_defs cmd_defs)
  show ?thesis
    using assms e c t w1 w2 w3 by (simp add: QSPI_PageProgram_4B_def)
qed

lemma quick_Read:
  "\<exists>w'. QSPI_Read_4B (sim quick_knobs) addr buf size' w
        = (HAL_OK, map (\<lambda>i. mem (dev w) (addr + word_of_nat i)) [0..<unat size']
                   @ drop (unat size') buf, w')
      \<and> mem (dev w') = mem (dev w) \<and> console w' = console w"
  by (simp add: QSPI_Read_4B_def sim_defs cmd_defs)

lemma unat_TEST_PAGE_SIZE: "unat TEST_PAGE_SIZE = 256"
  by (simp add: TEST_PAGE_SIZE_def)

lemma test_pattern_nth:
  assumes "i < 256"
  shows "test_pattern ! i = word_of_nat i XOR 0xA5"
proof -
  have "test_pattern ! i = ucast ((word_of_nat i :: u32) XOR 0xA5)"
    using assms by (simp add: test_pattern_def unat_TEST_PAGE_SIZE)
  also have "\<dots> = ucast (word_of_nat i :: u32) XOR (ucast (0xA5 :: u32) :: u8)"
    by (rule bit_word_eqI) (auto simp: bit_simps)
  also have "(ucast (word_of_nat i :: u32) :: u8) = word_of_nat i"
    by (rule bit_word_eqI) (auto simp: bit_simps)
  finally show ?thesis by simp
qed

lemma write_page_read_back:
  assumes "length data = unat n"
  shows "map (\<lambda>i. write_page quick_knobs base n data old (base + word_of_nat i)) [0..<unat n]
         = data"
proof (rule nth_equalityI)
  show "length (map (\<lambda>i. write_page quick_knobs base n data old (base + word_of_nat i))
          [0..<unat n]) = length data"
    using assms by simp
next
  fix i
  assume "i < length (map (\<lambda>i. write_page quick_knobs base n data old (base + word_of_nat i))
            [0..<unat n])"
  then have i: "i < unat n" by simp
  have "unat n < 2 ^ 32" using unsigned_less[of n] by simp
  then have u: "unat (word_of_nat i :: u32) = i"
    using i by (simp add: unat_of_nat)
  then have "(word_of_nat i :: u32) < n"
    using i by (simp add: word_less_nat_alt)
  then show "map (\<lambda>i. write_page quick_knobs base n data old (base + word_of_nat i))
               [0..<unat n] ! i = data ! i"
    using i u by (simp add: write_page_def quick_knobs_def)
qed

lemma same_sector:
  assumes "i < 256"
  shows "drop_bit 12 (TEST_ADDR + word_of_nat i) = drop_bit 12 TEST_ADDR"
proof -
  have u: "unat (word_of_nat i :: u32) = i"
    using assms by (simp add: unat_of_nat)
  have e: "unat (TEST_ADDR + word_of_nat i) = 4096 + i"
    using assms u by (simp add: TEST_ADDR_def unat_word_ariths)
  have "unat (drop_bit 12 (TEST_ADDR + word_of_nat i)) = drop_bit 12 (4096 + i)"
    by (simp only: unat_drop_bit_eq e)
  also have "\<dots> = 1"
    using assms by (simp add: drop_bit_eq_div)
  also have "\<dots> = unat (drop_bit 12 TEST_ADDR)"
    by (simp add: TEST_ADDR_def)
  finally show ?thesis by (simp only: word_unat_eq_iff)
qed

lemma QSPI_WriteEnable_out:
  assumes "QSPI_WriteEnable p w = Some (st, w')"
  shows "\<exists>evs. bus w' = bus w @ evs \<and> list_all (\<lambda>e. \<not> data_mutating e) evs"
proof (cases "QSPI_SendSimple p (CMD_WRITE_ENABLE p) w")
  case (Pair st1 w1)
  note s = QSPI_SendSimple_out[OF Pair]
  show ?thesis
  proof (cases "st1 = HAL_OK")
    case False
    then have "w' = w1" using assms Pair by (simp add: QSPI_WriteEnable_def)
    then show ?thesis using s simple_not_mutating by simp
  next
    case True
    obtain start w2 where t: "call_GetTick p w1 = (start, w2)"
      by (cases "call_GetTick p w1") auto
    then have l: "WriteEnable_loop p start 0 w2 = Some (st, w')"
      using assms Pair True by (simp add: QSPI_WriteEnable_def)
    have "polled p w2 w'" using WriteEnable_loop_out[OF l] by simp
    then have m: "list_all (\<lambda>e. \<not> data_mutating e) (bus_since w2 w')"
      by (rule polled_not_mutating)
    obtain evs where b: "bus w' = bus w2 @ evs"
      using \<open>polled p w2 w'\<close> by (auto simp: polled_def)
    have "bus w' = bus w @ BusCommand (simple_cmd (CMD_WRITE_ENABLE p)) st1 # evs"
      using s call_GetTick_out[OF t] b by simp
    moreover have "list_all (\<lambda>e. \<not> data_mutating e) evs"
      using m b by (simp add: bus_since_def)
    ultimately show ?thesis using simple_not_mutating by simp
  qed
qed

lemma QSPI_PageProgram_4B_out:
  assumes "QSPI_PageProgram_4B p a data n w = Some (HAL_OK, w')"
  shows "filter data_mutating (bus_since w w')
         = [BusCommand (program_cmd a n) HAL_OK, BusTransmit (take (unat n) data) HAL_OK]"
proof -
  have n: "\<not> (n = 0 \<or> TEST_PAGE_SIZE < n)"
    using assms by (auto simp: QSPI_PageProgram_4B_def)
  obtain st1 w1 where e: "QSPI_WriteEnable p w = Some (st1, w1)"
    using assms n by (auto simp: QSPI_PageProgram_4B_def split: option.splits)
  have ok1: "st1 = HAL_OK"
    using assms n e by (auto simp: QSPI_PageProgram_4B_def split: if_splits)
  obtain st2 w2 where c: "call_Command p (program_cmd a n) w1 = (st2, w2)"
    by (cases "call_Command p (program_cmd a n) w1") auto
  have ok2: "st2 = HAL_OK"
    using assms n e ok1 c by (auto simp: QSPI_PageProgram_4B_def split: if_splits)
  have t: "call_Transmit p (unat n) data w2 = (HAL_OK, w')"
    using assms n e ok1 c ok2 by (simp add: QSPI_PageProgram_4B_def)
  obtain evs where b: "bus w1 = bus w @ evs" "list_all (\<lambda>e. \<not> data_mutating e) evs"
    using QSPI_WriteEnable_out[OF e] by blast
  have "bus w' = bus w @ evs @ [BusCommand (program_cmd a n) HAL_OK,
          BusTransmit (take (unat n) data) HAL_OK]"
    using b(1) call_Command_out[OF c] ok2 call_Transmit_out[OF t] by simp
  moreover have "filter data_mutating evs = []"
    using b(2) by (simp add: list_all_iff filter_empty_conv)
  moreover have "data_mutating (BusCommand (program_cmd a n) HAL_OK)"
    by (simp add: program_cmd_def)
  ultimately show ?thesis
    by (simp add: bus_since_def)
qed

lemma page_read_bus:
  assumes "QSPI_Read_4B p a fresh_buf TEST_PAGE_SIZE w = (HAL_OK, buf', w')"
  shows "bus_since w w' = [BusCommand (read_cmd a 256) HAL_OK, BusReceive buf' HAL_OK]
         \<and> length buf' = 256"
  using QSPI_Read_4B_out[OF assms] page_read_length[OF assms]
  by (simp add: bus_since_def unat_TEST_PAGE_SIZE TEST_PAGE_SIZE_def)

lemma program_success_only_if:
  assumes "RunSelfTest_from_program p w = Some w'" and "last (console w') = ProgramVerifyOK"
  shows "\<exists>w1 w2 w3.
           QSPI_PageProgram_4B p TEST_ADDR test_pattern TEST_PAGE_SIZE
             (printf (Programming TEST_PAGE_SIZE TEST_ADDR) w) = Some (HAL_OK, w1)
           \<and> QSPI_WaitWhileBusy p 100 w1 = Some (HAL_OK, w2)
           \<and> QSPI_Read_4B p TEST_ADDR fresh_buf TEST_PAGE_SIZE w2 = (HAL_OK, test_pattern, w3)
           \<and> w' = printf ProgramVerifyOK w3"
proof -
  obtain st1 w1 where a: "QSPI_PageProgram_4B p TEST_ADDR test_pattern TEST_PAGE_SIZE
             (printf (Programming TEST_PAGE_SIZE TEST_ADDR) w) = Some (st1, w1)"
    using assms(1) by (auto simp: RunSelfTest_from_program_def split: option.splits)
  have ok1: "st1 = HAL_OK"
  proof (rule ccontr)
    assume "st1 \<noteq> HAL_OK"
    then have "RunSelfTest_from_program p w = Some (printf ProgramFailed w1)"
      using fail_fast_program[of p w] a by simp
    then have "w' = printf ProgramFailed w1" using assms(1) by simp
    then show False using assms(2) by (simp add: printf_def)
  qed
  obtain st2 w2 where b: "QSPI_WaitWhileBusy p 100 w1 = Some (st2, w2)"
    using assms(1) a ok1 by (auto simp: RunSelfTest_from_program_def split: option.splits)
  have ok2: "st2 = HAL_OK"
  proof (rule ccontr)
    assume "st2 \<noteq> HAL_OK"
    then have "RunSelfTest_from_program p w = Some (printf ProgramTimeout w2)"
      using fail_fast_program[of p w] a ok1 b by simp
    then have "w' = printf ProgramTimeout w2" using assms(1) by simp
    then show False using assms(2) by (simp add: printf_def)
  qed
  have "RunSelfTest_from_program p w = Some (RunSelfTest_from_readback p test_pattern w2)"
    using fail_fast_program[of p w] a ok1 b ok2 by simp
  then have r: "w' = RunSelfTest_from_readback p test_pattern w2"
    using assms(1) by simp
  obtain st3 in' w3 where c: "QSPI_Read_4B p TEST_ADDR fresh_buf TEST_PAGE_SIZE w2 = (st3, in', w3)"
    by (cases "QSPI_Read_4B p TEST_ADDR fresh_buf TEST_PAGE_SIZE w2") auto
  have ok3: "st3 = HAL_OK"
  proof (rule ccontr)
    assume "st3 \<noteq> HAL_OK"
    then have "RunSelfTest_from_readback p test_pattern w2 = printf ReadAfterProgramFailed w3"
      using fail_fast_readback[of p w2] c by simp
    then show False using assms(2) r by (simp add: printf_def)
  qed
  have eq: "in' = test_pattern"
  proof (rule ccontr)
    assume "in' \<noteq> test_pattern"
    then obtain i e b where
      "RunSelfTest_from_readback p test_pattern w2 = printf (VerifyMismatch i e b) w3"
      using fail_fast_readback[of p w2] c ok3 by blast
    then show False using assms(2) r by (simp add: printf_def)
  qed
  have "RunSelfTest_from_readback p test_pattern w2 = printf ProgramVerifyOK w3"
    using fail_fast_readback[of p w2] c ok3 eq by simp
  then have "w' = printf ProgramVerifyOK w3" using r by simp
  then show ?thesis
    using a ok1 b ok2 c ok3 eq by blast
qed

text \<open>
  C8. The programming part of the self-test (lines 69 to 99), started in any world. The
  pattern is 256 bytes with byte \<open>i\<close> equal to \<open>i XOR 0xA5\<close>. When the page program call
  succeeds, the only data-changing traffic it caused is one program command for
  \<^verbatim>\<open>TEST_ADDR\<close> with 256 bytes and the transmission of the whole pattern. After the busy
  wait, one read command for the same address and length brings back 256 bytes: if they
  equal the pattern the run ends with the success line; if they first differ at offset
  \<open>i\<close> the run ends with the mismatch line carrying \<open>i\<close>, the byte written and the byte
  read. The success line is printed only in the first case.
\<close>

theorem selftest_program_verify:
  "length test_pattern = 256
   \<and> (\<forall>i<256. test_pattern ! i = word_of_nat i XOR 0xA5)
   \<and> (\<forall>w1. QSPI_PageProgram_4B p TEST_ADDR test_pattern TEST_PAGE_SIZE
               (printf (Programming TEST_PAGE_SIZE TEST_ADDR) w) = Some (HAL_OK, w1) \<longrightarrow>
        filter data_mutating (bus_since w w1)
        = [BusCommand (program_cmd TEST_ADDR 256) HAL_OK, BusTransmit test_pattern HAL_OK]
        \<and> (\<forall>w2. QSPI_WaitWhileBusy p 100 w1 = Some (HAL_OK, w2) \<longrightarrow>
             (\<forall>in' w3. QSPI_Read_4B p TEST_ADDR fresh_buf TEST_PAGE_SIZE w2 = (HAL_OK, in', w3) \<longrightarrow>
                bus_since w2 w3
                = [BusCommand (read_cmd TEST_ADDR 256) HAL_OK, BusReceive in' HAL_OK]
                \<and> length in' = 256
                \<and> (in' = test_pattern \<longrightarrow>
                     RunSelfTest_from_program p w = Some (printf ProgramVerifyOK w3))
                \<and> (\<forall>i<256. in' ! i \<noteq> test_pattern ! i \<and> (\<forall>j<i. in' ! j = test_pattern ! j) \<longrightarrow>
                     RunSelfTest_from_program p w
                     = Some (printf (VerifyMismatch i (test_pattern ! i) (in' ! i)) w3)))))
   \<and> (\<forall>w'. RunSelfTest_from_program p w = Some w' \<and> last (console w') = ProgramVerifyOK \<longrightarrow>
        (\<exists>w1 w2 w3.
           QSPI_PageProgram_4B p TEST_ADDR test_pattern TEST_PAGE_SIZE
             (printf (Programming TEST_PAGE_SIZE TEST_ADDR) w) = Some (HAL_OK, w1)
           \<and> QSPI_WaitWhileBusy p 100 w1 = Some (HAL_OK, w2)
           \<and> QSPI_Read_4B p TEST_ADDR fresh_buf TEST_PAGE_SIZE w2 = (HAL_OK, test_pattern, w3)
           \<and> w' = printf ProgramVerifyOK w3))"
proof (intro conjI allI impI)
  show "length test_pattern = 256"
    by (simp add: length_test_pattern unat_TEST_PAGE_SIZE)
next
  fix i :: nat
  assume "i < 256"
  then show "test_pattern ! i = word_of_nat i XOR 0xA5"
    by (rule test_pattern_nth)
next
  fix w1
  assume a: "QSPI_PageProgram_4B p TEST_ADDR test_pattern TEST_PAGE_SIZE
               (printf (Programming TEST_PAGE_SIZE TEST_ADDR) w) = Some (HAL_OK, w1)"
  have "take (unat TEST_PAGE_SIZE) test_pattern = test_pattern"
    by (simp add: length_test_pattern)
  then show "filter data_mutating (bus_since w w1)
        = [BusCommand (program_cmd TEST_ADDR 256) HAL_OK, BusTransmit test_pattern HAL_OK]"
    using QSPI_PageProgram_4B_out[OF a]
    by (simp add: bus_since_def printf_def TEST_PAGE_SIZE_def)
  fix w2 in' w3
  assume b: "QSPI_WaitWhileBusy p 100 w1 = Some (HAL_OK, w2)"
    and c: "QSPI_Read_4B p TEST_ADDR fresh_buf TEST_PAGE_SIZE w2 = (HAL_OK, in', w3)"
  show "bus_since w2 w3 = [BusCommand (read_cmd TEST_ADDR 256) HAL_OK, BusReceive in' HAL_OK]"
    and "length in' = 256"
    using page_read_bus[OF c] by simp_all
  have run: "RunSelfTest_from_program p w = Some (RunSelfTest_from_readback p test_pattern w2)"
    using fail_fast_program[of p w] a b by simp
  {
    assume "in' = test_pattern"
    then show "RunSelfTest_from_program p w = Some (printf ProgramVerifyOK w3)"
      using run fail_fast_readback[of p w2] c by simp
  }
  {
    fix i :: nat
    assume i: "i < 256" and m: "in' ! i \<noteq> test_pattern ! i \<and> (\<forall>j<i. in' ! j = test_pattern ! j)"
    have "RunSelfTest_from_readback p test_pattern w2
          = printf (VerifyMismatch i (test_pattern ! i) (in' ! i)) w3"
      using i m by (intro readback_mismatch[OF c]) (auto simp: unat_TEST_PAGE_SIZE)
    then show "RunSelfTest_from_program p w
               = Some (printf (VerifyMismatch i (test_pattern ! i) (in' ! i)) w3)"
      using run by simp
  }
next
  fix w'
  assume "RunSelfTest_from_program p w = Some w' \<and> last (console w') = ProgramVerifyOK"
  then show "\<exists>w1 w2 w3.
           QSPI_PageProgram_4B p TEST_ADDR test_pattern TEST_PAGE_SIZE
             (printf (Programming TEST_PAGE_SIZE TEST_ADDR) w) = Some (HAL_OK, w1)
           \<and> QSPI_WaitWhileBusy p 100 w1 = Some (HAL_OK, w2)
           \<and> QSPI_Read_4B p TEST_ADDR fresh_buf TEST_PAGE_SIZE w2 = (HAL_OK, test_pattern, w3)
           \<and> w' = printf ProgramVerifyOK w3"
    using program_success_only_if[of p w w'] by blast
qed

lemma quick_program_steps:
  "\<exists>w1 w2 w3.
     QSPI_PageProgram_4B (sim quick_knobs) TEST_ADDR test_pattern TEST_PAGE_SIZE
       (printf (Programming TEST_PAGE_SIZE TEST_ADDR) w) = Some (HAL_OK, w1)
     \<and> QSPI_WaitWhileBusy (sim quick_knobs) 100 w1 = Some (HAL_OK, w2)
     \<and> QSPI_Read_4B (sim quick_knobs) TEST_ADDR fresh_buf TEST_PAGE_SIZE w2
       = (HAL_OK, test_pattern, w3)
     \<and> console w3 = console w @ [Programming TEST_PAGE_SIZE TEST_ADDR]"
proof -
  let ?S = "sim quick_knobs"
  let ?w0 = "printf (Programming TEST_PAGE_SIZE TEST_ADDR) w"
  have sz: "TEST_PAGE_SIZE \<noteq> 0" "TEST_PAGE_SIZE \<le> TEST_PAGE_SIZE"
    by (simp_all add: TEST_PAGE_SIZE_def)
  have tk: "take (unat TEST_PAGE_SIZE) test_pattern = test_pattern"
    by (simp add: length_test_pattern)
  obtain w1 where a: "QSPI_PageProgram_4B ?S TEST_ADDR test_pattern TEST_PAGE_SIZE ?w0
                      = Some (HAL_OK, w1)"
    and w1: "mem (dev w1) = write_page quick_knobs TEST_ADDR TEST_PAGE_SIZE test_pattern
               (mem (dev ?w0))"
      "busy_until (dev w1) \<le> clk (dev w1) + 2" "console w1 = console ?w0"
    using quick_PageProgram[OF sz, of TEST_ADDR test_pattern ?w0]
    by (auto simp: tk length_test_pattern)
  obtain w2 where b: "QSPI_WaitWhileBusy ?S 100 w1 = Some (HAL_OK, w2)"
    and w2: "mem (dev w2) = mem (dev w1)" "console w2 = console w1"
    using quick_WaitWhileBusy[OF w1(2), of 100] by blast
  obtain w3 where c: "QSPI_Read_4B ?S TEST_ADDR fresh_buf TEST_PAGE_SIZE w2
        = (HAL_OK, map (\<lambda>i. mem (dev w2) (TEST_ADDR + word_of_nat i)) [0..<unat TEST_PAGE_SIZE]
                   @ drop (unat TEST_PAGE_SIZE) fresh_buf, w3)"
    and w3: "console w3 = console w2"
    using quick_Read[of TEST_ADDR fresh_buf TEST_PAGE_SIZE w2] by blast
  have "map (\<lambda>i. mem (dev w2) (TEST_ADDR + word_of_nat i)) [0..<unat TEST_PAGE_SIZE]
        = test_pattern"
    using write_page_read_back[OF length_test_pattern, of TEST_ADDR "mem (dev ?w0)"]
    by (simp add: w2 w1)
  then have "QSPI_Read_4B ?S TEST_ADDR fresh_buf TEST_PAGE_SIZE w2 = (HAL_OK, test_pattern, w3)"
    using c by (simp add: length_fresh_buf)
  then show ?thesis
    using a b w1(3) w2(2) w3 by (auto simp: printf_def)
qed

theorem selftest_program_verify_witness:
  "map_option console (RunSelfTest_from_program (sim quick_knobs) (power_up 0xFF))
   = Some [Programming TEST_PAGE_SIZE TEST_ADDR, ProgramVerifyOK]"
proof -
  obtain w1 w2 w3 where
    a: "QSPI_PageProgram_4B (sim quick_knobs) TEST_ADDR test_pattern TEST_PAGE_SIZE
       (printf (Programming TEST_PAGE_SIZE TEST_ADDR) (power_up 0xFF)) = Some (HAL_OK, w1)"
    and b: "QSPI_WaitWhileBusy (sim quick_knobs) 100 w1 = Some (HAL_OK, w2)"
    and c: "QSPI_Read_4B (sim quick_knobs) TEST_ADDR fresh_buf TEST_PAGE_SIZE w2
       = (HAL_OK, test_pattern, w3)"
    and d: "console w3 = console (power_up 0xFF) @ [Programming TEST_PAGE_SIZE TEST_ADDR]"
    using quick_program_steps[of "power_up 0xFF"] by blast
  have "RunSelfTest_from_program (sim quick_knobs) (power_up 0xFF)
        = Some (printf ProgramVerifyOK w3)"
    using selftest_program_verify[of "sim quick_knobs" "power_up 0xFF"] a b c by blast
  then show ?thesis
    using d by (simp add: printf_def power_up_def)
qed

lemma stuck_run:
  "map_option (\<lambda>w. (console w, mem (dev w) 0x10FF, mem (dev w) 0x1100))
     (MT25Q_RunSelfTest (sim stuck_knobs) (power_up 0))
   = Some ([SelfTestStart, JedecID 0x20 0xBA 0x20, Erasing 0x1000, EraseOK,
            Programming 256 0x1000, ProgramFailed], 0xFF, 0)"
  by code_simp

text \<open>
  C2, as stated, fails: on a device where the erase leaves the byte at 0x1100, inside the
  erased 4 KiB subsector, at 0x00, the self-test still reports the erase as verified. (The
  run ends in the programming step, where this device lets a bus call fail.)
\<close>

theorem erase_check_span_counterexample:
  "console (the (MT25Q_RunSelfTest (sim stuck_knobs) (power_up 0)))
     = [SelfTestStart, JedecID 0x20 0xBA 0x20, Erasing 0x1000, EraseOK,
        Programming 256 0x1000, ProgramFailed]
   \<and> mem (dev (the (MT25Q_RunSelfTest (sim stuck_knobs) (power_up 0)))) 0x10FF = 0xFF
   \<and> mem (dev (the (MT25Q_RunSelfTest (sim stuck_knobs) (power_up 0)))) 0x1100 = 0
   \<and> MT25Q_RunSelfTest (sim stuck_knobs) (power_up 0) \<noteq> None
   \<and> TEST_ADDR \<le> 0x1100 \<and> (0x1100 :: u32) < TEST_ADDR + 4096"
  using stuck_run by (auto simp: TEST_ADDR_def)

text \<open>
  C2, amended. After the erase call and the busy wait have succeeded, the self-test issues
  one read command for \<^verbatim>\<open>TEST_PAGE_SIZE\<close> = 256 bytes at \<^verbatim>\<open>TEST_ADDR\<close>, the first page
  of the erased subsector. If all 256 bytes are 0xFF it prints the erase-verified line and
  goes on to programming; otherwise it stops with the offset of the first byte that is not
  0xFF and that byte.
\<close>

theorem selftest_erase_check:
  "unat TEST_PAGE_SIZE = 256
   \<and> (\<forall>w1 w2. QSPI_Erase4K_4B p TEST_ADDR (printf (Erasing TEST_ADDR) w) = Some (HAL_OK, w1)
              \<and> QSPI_WaitWhileBusy p 5000 w1 = Some (HAL_OK, w2) \<longrightarrow>
        (\<forall>verify_buf w3.
           QSPI_Read_4B p TEST_ADDR fresh_buf TEST_PAGE_SIZE w2 = (HAL_OK, verify_buf, w3) \<longrightarrow>
           bus_since w2 w3
           = [BusCommand (read_cmd TEST_ADDR 256) HAL_OK, BusReceive verify_buf HAL_OK]
           \<and> length verify_buf = 256
           \<and> ((\<forall>i<256. verify_buf ! i = 0xFF) \<longrightarrow>
                RunSelfTest_from_erase p w = RunSelfTest_from_program p (printf EraseOK w3))
           \<and> (\<forall>i<256. verify_buf ! i \<noteq> 0xFF \<and> (\<forall>j<i. verify_buf ! j = 0xFF) \<longrightarrow>
                RunSelfTest_from_erase p w
                = Some (printf (EraseVerifyFailed i (verify_buf ! i)) w3))))"
proof (intro conjI allI impI)
  show "unat TEST_PAGE_SIZE = 256" by (rule unat_TEST_PAGE_SIZE)
next
  fix w1 w2 verify_buf w3
  assume a: "QSPI_Erase4K_4B p TEST_ADDR (printf (Erasing TEST_ADDR) w) = Some (HAL_OK, w1)
              \<and> QSPI_WaitWhileBusy p 5000 w1 = Some (HAL_OK, w2)"
    and c: "QSPI_Read_4B p TEST_ADDR fresh_buf TEST_PAGE_SIZE w2 = (HAL_OK, verify_buf, w3)"
  show "bus_since w2 w3
        = [BusCommand (read_cmd TEST_ADDR 256) HAL_OK, BusReceive verify_buf HAL_OK]"
    and "length verify_buf = 256"
    using page_read_bus[OF c] by simp_all
  have run: "RunSelfTest_from_erase p w = RunSelfTest_from_erase_verify p w2"
    using fail_fast_erase[of p w] a by simp
  {
    assume "\<forall>i<256. verify_buf ! i = 0xFF"
    then show "RunSelfTest_from_erase p w = RunSelfTest_from_program p (printf EraseOK w3)"
      using run fail_fast_erase_verify[of p w2] c by (simp add: unat_TEST_PAGE_SIZE)
  }
  {
    fix i :: nat
    assume i: "i < 256"
      and m: "verify_buf ! i \<noteq> 0xFF \<and> (\<forall>j<i. verify_buf ! j = 0xFF)"
    have "find (\<lambda>i. verify_buf ! i \<noteq> 0xFF) [0..<unat TEST_PAGE_SIZE] = Some i"
      using i m by (intro find_upt_least) (auto simp: unat_TEST_PAGE_SIZE)
    then show "RunSelfTest_from_erase p w
               = Some (printf (EraseVerifyFailed i (verify_buf ! i)) w3)"
      using run c by (simp add: RunSelfTest_from_erase_verify_def)
  }
qed

lemma quick_program_run:
  "\<exists>w'. RunSelfTest_from_program (sim quick_knobs) w = Some w'
       \<and> console w' = console w @ [Programming TEST_PAGE_SIZE TEST_ADDR, ProgramVerifyOK]"
proof -
  obtain w1 w2 w3 where
    a: "QSPI_PageProgram_4B (sim quick_knobs) TEST_ADDR test_pattern TEST_PAGE_SIZE
       (printf (Programming TEST_PAGE_SIZE TEST_ADDR) w) = Some (HAL_OK, w1)"
    and b: "QSPI_WaitWhileBusy (sim quick_knobs) 100 w1 = Some (HAL_OK, w2)"
    and c: "QSPI_Read_4B (sim quick_knobs) TEST_ADDR fresh_buf TEST_PAGE_SIZE w2
       = (HAL_OK, test_pattern, w3)"
    and d: "console w3 = console w @ [Programming TEST_PAGE_SIZE TEST_ADDR]"
    using quick_program_steps[of w] by blast
  have "RunSelfTest_from_program (sim quick_knobs) w
        = Some (RunSelfTest_from_readback (sim quick_knobs) test_pattern w2)"
    using fail_fast_program[of "sim quick_knobs" w] a b by simp
  also have "RunSelfTest_from_readback (sim quick_knobs) test_pattern w2
             = printf ProgramVerifyOK w3"
    using fail_fast_readback[of "sim quick_knobs" w2] c by simp
  finally show ?thesis
    using d by (simp add: printf_def)
qed

theorem selftest_erase_check_witness:
  "map_option console (RunSelfTest_from_erase (sim quick_knobs) (power_up 0))
   = Some [Erasing TEST_ADDR, EraseOK, Programming TEST_PAGE_SIZE TEST_ADDR, ProgramVerifyOK]"
proof -
  let ?S = "sim quick_knobs"
  let ?w0 = "printf (Erasing TEST_ADDR) (power_up 0)"
  obtain w1 where a: "QSPI_Erase4K_4B ?S TEST_ADDR ?w0 = Some (HAL_OK, w1)"
    and w1: "mem (dev w1)
             = (\<lambda>a. if drop_bit 12 a = drop_bit 12 TEST_ADDR then 0xFF else mem (dev ?w0) a)"
      "busy_until (dev w1) \<le> clk (dev w1) + 2" "console w1 = console ?w0"
    using quick_Erase4K[of TEST_ADDR ?w0] by blast
  obtain w2 where b: "QSPI_WaitWhileBusy ?S 5000 w1 = Some (HAL_OK, w2)"
    and w2: "mem (dev w2) = mem (dev w1)" "console w2 = console w1"
    using quick_WaitWhileBusy[OF w1(2), of 5000] by blast
  define vb where "vb = map (\<lambda>i. mem (dev w2) (TEST_ADDR + word_of_nat i))
                          [0..<unat TEST_PAGE_SIZE] @ drop (unat TEST_PAGE_SIZE) fresh_buf"
  obtain w3 where c: "QSPI_Read_4B ?S TEST_ADDR fresh_buf TEST_PAGE_SIZE w2 = (HAL_OK, vb, w3)"
    and w3: "console w3 = console w2"
    using quick_Read[of TEST_ADDR fresh_buf TEST_PAGE_SIZE w2] unfolding vb_def by blast
  have ff: "\<forall>i<256. vb ! i = 0xFF"
    by (simp add: vb_def nth_append unat_TEST_PAGE_SIZE w2 w1 same_sector)
  have "RunSelfTest_from_erase ?S (power_up 0)
        = RunSelfTest_from_program ?S (printf EraseOK w3)"
    using selftest_erase_check[of ?S "power_up 0"] a b c ff by blast
  moreover obtain w' where "RunSelfTest_from_program ?S (printf EraseOK w3) = Some w'"
    and "console w' = console (printf EraseOK w3)
                      @ [Programming TEST_PAGE_SIZE TEST_ADDR, ProgramVerifyOK]"
    using quick_program_run[of "printf EraseOK w3"] by blast
  ultimately show ?thesis
    using w3 w2(2) w1(3) by (simp add: printf_def power_up_def)
qed


section \<open>The shape of the commands\<close>

lemma wf_refl [simp]: "bus_wf_since w w"
  by (simp add: bus_wf_since_def bus_since_def)

lemma wf_appendI:
  "bus w' = bus w @ evs \<Longrightarrow> list_all event_wf evs \<Longrightarrow> bus_wf_since w w'"
  by (simp add: bus_wf_since_def bus_since_def)

lemma wf_appendD:
  "bus_wf_since w w' \<Longrightarrow> \<exists>evs. bus w' = bus w @ evs \<and> list_all event_wf evs"
  by (metis append_take_drop_id bus_since_def bus_wf_since_def)

lemma wf_trans: "bus_wf_since w w1 \<Longrightarrow> bus_wf_since w1 w2 \<Longrightarrow> bus_wf_since w w2"
proof -
  assume "bus_wf_since w w1" "bus_wf_since w1 w2"
  then obtain e1 e2 where "bus w1 = bus w @ e1" "list_all event_wf e1"
    "bus w2 = bus w1 @ e2" "list_all event_wf e2"
    using wf_appendD by blast
  then show ?thesis by (intro wf_appendI[of _ _ "e1 @ e2"]) simp_all
qed

lemma wf_same_bus:
  "bus v = bus w \<Longrightarrow> bus v' = bus w' \<Longrightarrow> bus_wf_since v v' = bus_wf_since w w'"
  by (simp add: bus_wf_since_def bus_since_def)

lemma wf_printf [simp]:
  "bus_wf_since (printf r w) w' = bus_wf_since w w'"
  "bus_wf_since w (printf r w') = bus_wf_since w w'"
  by (simp_all add: wf_same_bus[of "printf r w" w w' w'] wf_same_bus[of w w "printf r w'" w']
        printf_out)

lemma wf_Delay [simp]:
  "bus_wf_since (call_Delay p ms w) w' = bus_wf_since w w'"
  by (simp add: wf_same_bus[of "call_Delay p ms w" w w' w'] call_Delay_out)

lemma wf_GetTick:
  "call_GetTick p w = (t, w1) \<Longrightarrow> bus_wf_since w1 w' = bus_wf_since w w'"
  using call_GetTick_out[of p w t w1] by (simp add: wf_same_bus[of w1 w w' w'])

lemma cmd_wf_built [simp]:
  "cmd_wf (simple_cmd i)" "cmd_wf (read_status_cmd p)" "cmd_wf (read_id_cmd p)"
  "cmd_wf (erase_cmd a)"
  by (simp_all add: cmd_wf_def simple_cmd_def read_status_cmd_def read_id_cmd_def
        erase_cmd_def cmd_zero_def)

lemma cmd_wf_sized [simp]:
  "cmd_wf (program_cmd a n) \<longleftrightarrow> n \<noteq> 0" "cmd_wf (read_cmd a n) \<longleftrightarrow> n \<noteq> 0"
  by (simp_all add: cmd_wf_def program_cmd_def read_cmd_def cmd_zero_def)

lemma poll_event_wf: "is_poll_event p e \<Longrightarrow> event_wf e"
  by (cases e) auto

lemma polled_wf:
  assumes "polled p w w'"
  shows "bus_wf_since w w'"
proof -
  obtain st evs where b: "bus w' = bus w @ BusCommand (read_status_cmd p) st # evs"
    and l: "list_all (is_poll_event p) evs"
    using assms by (auto simp: polled_def)
  have "list_all event_wf evs"
    using l poll_event_wf by (auto simp: list_all_iff)
  then show ?thesis
    using b by (intro wf_appendI[of _ _ "BusCommand (read_status_cmd p) st # evs"]) simp_all
qed

lemma call_Command_wf: "cmd_wf c \<Longrightarrow> bus_wf_since w (snd (call_Command p c w))"
  using call_Command_out[of p c w "fst (call_Command p c w)" "snd (call_Command p c w)"]
  by (auto intro!: wf_appendI)

lemma call_Receive_wf: "bus_wf_since w (snd (snd (call_Receive p n buf w)))"
  by (cases "call_Receive p n buf w") (auto dest!: call_Receive_out intro!: wf_appendI)

lemma call_Transmit_wf: "bus_wf_since w (snd (call_Transmit p n data w))"
  by (cases "call_Transmit p n data w") (auto dest!: call_Transmit_out intro!: wf_appendI)

lemma QSPI_SendSimple_wf: "bus_wf_since w (snd (QSPI_SendSimple p i w))"
  by (simp add: QSPI_SendSimple_def call_Command_wf)

lemma QSPI_ReadStatus_wf: "bus_wf_since w (snd (snd (QSPI_ReadStatus p sr w)))"
  by (cases "QSPI_ReadStatus p sr w") (auto dest!: QSPI_ReadStatus_out polled_wf)

lemma QSPI_ReadID_wf: "bus_wf_since w (snd (snd (QSPI_ReadID p buf w)))"
proof (cases "call_Command p (read_id_cmd p) w")
  case (Pair st1 w1)
  have a: "bus_wf_since w w1"
    using call_Command_wf[of "read_id_cmd p" w p] Pair by simp
  show ?thesis
    using a wf_trans[OF a call_Receive_wf[of w1 p 3 buf]] Pair
    by (simp add: QSPI_ReadID_def)
qed

lemma QSPI_Read_4B_wf:
  "n \<noteq> 0 \<Longrightarrow> bus_wf_since w (snd (snd (QSPI_Read_4B p a buf n w)))"
proof (cases "call_Command p (read_cmd a n) w")
  case (Pair st1 w1)
  assume "n \<noteq> 0"
  then have a: "bus_wf_since w w1"
    using call_Command_wf[of "read_cmd a n" w p] Pair by simp
  show ?thesis
    using a wf_trans[OF a call_Receive_wf[of w1 p "unat n" buf]] Pair
    by (simp add: QSPI_Read_4B_def)
qed

lemma QSPI_WaitWhileBusy_wf:
  assumes "QSPI_WaitWhileBusy p t w = Some y"
  shows "bus_wf_since w (snd y)"
proof (cases "call_GetTick p w")
  case (Pair start w0)
  then have "WaitWhileBusy_loop p t start 0 w0 = Some y"
    using assms by (simp add: QSPI_WaitWhileBusy_def)
  then have "bus_wf_since w0 (snd y)"
    by (intro polled_wf WaitWhileBusy_loop_out)
  then show ?thesis by (simp add: wf_GetTick[OF Pair])
qed

lemma QSPI_WriteEnable_wf:
  assumes "QSPI_WriteEnable p w = Some y"
  shows "bus_wf_since w (snd y)"
proof (cases "QSPI_SendSimple p (CMD_WRITE_ENABLE p) w")
  case (Pair st1 w1)
  have a: "bus_wf_since w w1"
    using QSPI_SendSimple_wf[of w p "CMD_WRITE_ENABLE p"] Pair by simp
  show ?thesis
  proof (cases "st1 = HAL_OK")
    case False
    then show ?thesis using assms Pair a by (auto simp: QSPI_WriteEnable_def)
  next
    case True
    obtain start w2 where t: "call_GetTick p w1 = (start, w2)"
      by (cases "call_GetTick p w1") auto
    then have "WriteEnable_loop p start 0 w2 = Some y"
      using assms Pair True by (simp add: QSPI_WriteEnable_def)
    then have "bus_wf_since w2 (snd y)"
      by (intro polled_wf WriteEnable_loop_out)
    then have "bus_wf_since w1 (snd y)" by (simp add: wf_GetTick[OF t])
    then show ?thesis using a wf_trans by blast
  qed
qed

lemma QSPI_Enable4ByteAddressing_wf:
  assumes "QSPI_Enable4ByteAddressing p w = Some y"
  shows "bus_wf_since w (snd y)"
proof -
  obtain st1 w1 where e: "QSPI_WriteEnable p w = Some (st1, w1)"
    using assms by (auto simp: QSPI_Enable4ByteAddressing_def split: option.splits)
  have a: "bus_wf_since w w1" using QSPI_WriteEnable_wf[OF e] by simp
  have b: "bus_wf_since w (snd (QSPI_SendSimple p CMD_ENABLE_4BYTE_ADDR w1))"
    using wf_trans[OF a QSPI_SendSimple_wf] .
  obtain st2 w2 where c: "QSPI_SendSimple p CMD_ENABLE_4BYTE_ADDR w1 = (st2, w2)"
    by (cases "QSPI_SendSimple p CMD_ENABLE_4BYTE_ADDR w1") auto
  have "snd y = w1 \<or> snd y = w2"
    using assms by (auto simp: QSPI_Enable4ByteAddressing_def e c split: if_splits)
  then show ?thesis using a b by (auto simp: c)
qed

lemma QSPI_Erase4K_4B_wf:
  assumes "QSPI_Erase4K_4B p addr w = Some y"
  shows "bus_wf_since w (snd y)"
proof -
  obtain st1 w1 where e: "QSPI_WriteEnable p w = Some (st1, w1)"
    using assms by (auto simp: QSPI_Erase4K_4B_def split: option.splits)
  have a: "bus_wf_since w w1" using QSPI_WriteEnable_wf[OF e] by simp
  have b: "bus_wf_since w (snd (call_Command p (erase_cmd addr) w1))"
    using wf_trans[OF a call_Command_wf] by simp
  show ?thesis
    using assms e a b by (auto simp: QSPI_Erase4K_4B_def split: if_splits)
qed

lemma QSPI_PageProgram_4B_wf:
  assumes "QSPI_PageProgram_4B p addr data n w = Some y"
  shows "bus_wf_since w (snd y)"
proof (cases "n = 0 \<or> TEST_PAGE_SIZE < n")
  case True
  then show ?thesis using assms by (auto simp: QSPI_PageProgram_4B_def)
next
  case False
  obtain st1 w1 where e: "QSPI_WriteEnable p w = Some (st1, w1)"
    using assms False by (auto simp: QSPI_PageProgram_4B_def split: option.splits)
  have a: "bus_wf_since w w1" using QSPI_WriteEnable_wf[OF e] by simp
  obtain st2 w2 where c: "call_Command p (program_cmd addr n) w1 = (st2, w2)"
    by (cases "call_Command p (program_cmd addr n) w1") auto
  have b: "bus_wf_since w w2"
    using wf_trans[OF a call_Command_wf[of "program_cmd addr n" w1 p]] False c by simp
  have d: "bus_wf_since w (snd (call_Transmit p (unat n) data w2))"
    using wf_trans[OF b call_Transmit_wf] .
  show ?thesis
    using assms False e a c b d by (auto simp: QSPI_PageProgram_4B_def split: if_splits)
qed

lemma page_size_nonzero: "TEST_PAGE_SIZE \<noteq> 0"
  by (simp add: TEST_PAGE_SIZE_def)

lemma readback_wf: "bus_wf_since w (RunSelfTest_from_readback p out w)"
proof (cases "QSPI_Read_4B p TEST_ADDR fresh_buf TEST_PAGE_SIZE w")
  case (fields st in' w1)
  have "bus_wf_since w w1"
    using QSPI_Read_4B_wf[OF page_size_nonzero, of w p TEST_ADDR fresh_buf] fields by simp
  then show ?thesis
    by (simp add: RunSelfTest_from_readback_def fields split: option.splits)
qed

lemma program_wf:
  assumes "RunSelfTest_from_program p w = Some w'"
  shows "bus_wf_since w w'"
proof -
  let ?w0 = "printf (Programming TEST_PAGE_SIZE TEST_ADDR) w"
  obtain st1 w1 where a: "QSPI_PageProgram_4B p TEST_ADDR test_pattern TEST_PAGE_SIZE ?w0
                          = Some (st1, w1)"
    using assms by (auto simp: RunSelfTest_from_program_def split: option.splits)
  have wa: "bus_wf_since w w1" using QSPI_PageProgram_4B_wf[OF a] by simp
  show ?thesis
  proof (cases "st1 = HAL_OK")
    case False
    then show ?thesis using assms a wa by (auto simp: RunSelfTest_from_program_def)
  next
    case True
    obtain st2 w2 where b: "QSPI_WaitWhileBusy p 100 w1 = Some (st2, w2)"
      using assms a True by (auto simp: RunSelfTest_from_program_def split: option.splits)
    have wb: "bus_wf_since w w2"
      using wf_trans[OF wa QSPI_WaitWhileBusy_wf[OF b]] by simp
    have wc: "bus_wf_since w (RunSelfTest_from_readback p test_pattern w2)"
      using wf_trans[OF wb readback_wf] .
    show ?thesis
      using assms True wb wc by (auto simp: RunSelfTest_from_program_def a b split: if_splits)
  qed
qed

lemma erase_verify_wf:
  assumes "RunSelfTest_from_erase_verify p w = Some w'"
  shows "bus_wf_since w w'"
proof (cases "QSPI_Read_4B p TEST_ADDR fresh_buf TEST_PAGE_SIZE w")
  case (fields st vb w1)
  have wa: "bus_wf_since w w1"
    using QSPI_Read_4B_wf[OF page_size_nonzero, of w p TEST_ADDR fresh_buf] fields by simp
  show ?thesis
  proof (cases "RunSelfTest_from_program p (printf EraseOK w1)")
    case None
    then show ?thesis
      using assms wa
      by (auto simp: RunSelfTest_from_erase_verify_def fields split: if_splits option.splits)
  next
    case (Some w2)
    have "bus_wf_since w w2" using wf_trans[OF wa] program_wf[OF Some] by simp
    then show ?thesis
      using assms wa
      by (auto simp: RunSelfTest_from_erase_verify_def fields Some
            split: if_splits option.splits)
  qed
qed

lemma erase_wf:
  assumes "RunSelfTest_from_erase p w = Some w'"
  shows "bus_wf_since w w'"
proof -
  obtain st1 w1 where a: "QSPI_Erase4K_4B p TEST_ADDR (printf (Erasing TEST_ADDR) w)
                          = Some (st1, w1)"
    using assms by (auto simp: RunSelfTest_from_erase_def split: option.splits)
  have wa: "bus_wf_since w w1" using QSPI_Erase4K_4B_wf[OF a] by simp
  show ?thesis
  proof (cases "st1 = HAL_OK")
    case False
    then show ?thesis using assms wa by (auto simp: RunSelfTest_from_erase_def a)
  next
    case True
    obtain st2 w2 where b: "QSPI_WaitWhileBusy p 5000 w1 = Some (st2, w2)"
      using assms True by (auto simp: RunSelfTest_from_erase_def a split: option.splits)
    have wb: "bus_wf_since w w2"
      using wf_trans[OF wa QSPI_WaitWhileBusy_wf[OF b]] by simp
    show ?thesis
    proof (cases "st2 = HAL_OK")
      case False
      then show ?thesis using assms True wb by (auto simp: RunSelfTest_from_erase_def a b)
    next
      case ok: True
      then have "RunSelfTest_from_erase_verify p w2 = Some w'"
        using assms True by (simp add: RunSelfTest_from_erase_def a b)
      then show ?thesis using wf_trans[OF wb] erase_verify_wf by blast
    qed
  qed
qed

lemma from_4byte_wf:
  assumes "RunSelfTest_from_4byte p w = Some w'"
  shows "bus_wf_since w w'"
proof -
  obtain st1 w1 where a: "QSPI_Enable4ByteAddressing p w = Some (st1, w1)"
    using assms by (auto simp: RunSelfTest_from_4byte_def split: option.splits)
  have wa: "bus_wf_since w w1" using QSPI_Enable4ByteAddressing_wf[OF a] by simp
  show ?thesis
  proof (cases "st1 = HAL_OK")
    case False
    then show ?thesis using assms wa by (auto simp: RunSelfTest_from_4byte_def a)
  next
    case True
    obtain st2 w2 where b: "QSPI_WaitWhileBusy p 100 w1 = Some (st2, w2)"
      using assms True by (auto simp: RunSelfTest_from_4byte_def a split: option.splits)
    have wb: "bus_wf_since w w2"
      using wf_trans[OF wa QSPI_WaitWhileBusy_wf[OF b]] by simp
    show ?thesis
    proof (cases "st2 = HAL_OK")
      case False
      then show ?thesis using assms True wb by (auto simp: RunSelfTest_from_4byte_def a b)
    next
      case ok: True
      then have "RunSelfTest_from_erase p w2 = Some w'"
        using assms True by (simp add: RunSelfTest_from_4byte_def a b)
      then show ?thesis using wf_trans[OF wb] erase_wf by blast
    qed
  qed
qed

lemma selftest_wf:
  assumes "MT25Q_RunSelfTest p w = Some w'"
  shows "bus_wf_since w w'"
proof -
  obtain st1 w1 where a: "QSPI_SendSimple p (CMD_RESET_ENABLE p) (printf SelfTestStart w)
                          = (st1, w1)"
    by (cases "QSPI_SendSimple p (CMD_RESET_ENABLE p) (printf SelfTestStart w)") auto
  have wa: "bus_wf_since w w1"
    using QSPI_SendSimple_wf[of "printf SelfTestStart w" p "CMD_RESET_ENABLE p"] a by simp
  obtain st2 w2 where b: "QSPI_SendSimple p (CMD_RESET_MEMORY p) w1 = (st2, w2)"
    by (cases "QSPI_SendSimple p (CMD_RESET_MEMORY p) w1") auto
  have wb: "bus_wf_since w w2"
    using wf_trans[OF wa QSPI_SendSimple_wf[of w1 p "CMD_RESET_MEMORY p"]] b by simp
  obtain st3 id' w3 where c: "QSPI_ReadID p [0, 0, 0] (call_Delay p 1 w2) = (st3, id', w3)"
    by (cases "QSPI_ReadID p [0, 0, 0] (call_Delay p 1 w2)") auto
  have wc: "bus_wf_since w w3"
    using wf_trans[OF wb, of w3] QSPI_ReadID_wf[of "call_Delay p 1 w2" p "[0, 0, 0]"] c by simp
  show ?thesis
  proof (cases "st1 = HAL_OK \<and> st2 = HAL_OK \<and> st3 = HAL_OK")
    case False
    then show ?thesis
      using assms wa wb wc by (auto simp: MT25Q_RunSelfTest_def a b c split: if_splits)
  next
    case True
    then have "RunSelfTest_from_4byte p (printf (JedecID (id' ! 0) (id' ! 1) (id' ! 2)) w3)
               = Some w'"
      using assms by (simp add: MT25Q_RunSelfTest_def a b c)
    then have "bus_wf_since w3 w'" using from_4byte_wf by fastforce
    then show ?thesis using wf_trans[OF wc] by blast
  qed
qed

text \<open>
  C9, as stated, fails for a read of length 0: \<^verbatim>\<open>QSPI_Read_4B\<close> builds and issues a
  command with a data phase and a byte count of 0.
\<close>

theorem read_zero_length_counterexample:
  "bus (snd (snd (QSPI_Read_4B (sim good_knobs) TEST_ADDR [] 0 (power_up 0xFF))))
     = [BusCommand (read_cmd TEST_ADDR 0) HAL_OK, BusReceive [] HAL_OK]
   \<and> DataMode (read_cmd TEST_ADDR 0) = QSPI_DATA_1_LINE
   \<and> NbData (read_cmd TEST_ADDR 0) = 0
   \<and> \<not> cmd_wf (read_cmd TEST_ADDR 0)"
  by code_simp

text \<open>
  C9, amended. Every command that the helpers and the self-test put on the bus satisfies
  the invariant, for every argument and every behaviour of the platform, with one
  condition: the length passed to \<^verbatim>\<open>QSPI_Read_4B\<close> is not 0.
  (\<^verbatim>\<open>QSPI_PageProgram_4B\<close> builds no command for a size it rejects, and the self-test
  reads 256 bytes.)
\<close>

theorem issued_commands_well_formed:
  "bus_wf_since w (snd (QSPI_SendSimple p instruction w))
   \<and> bus_wf_since w (snd (snd (QSPI_ReadStatus p sr w)))
   \<and> bus_wf_since w (snd (snd (QSPI_ReadID p id' w)))
   \<and> (\<forall>y. QSPI_WaitWhileBusy p timeout_ms w = Some y \<longrightarrow> bus_wf_since w (snd y))
   \<and> (\<forall>y. QSPI_WriteEnable p w = Some y \<longrightarrow> bus_wf_since w (snd y))
   \<and> (\<forall>y. QSPI_Enable4ByteAddressing p w = Some y \<longrightarrow> bus_wf_since w (snd y))
   \<and> (\<forall>y. QSPI_Erase4K_4B p addr w = Some y \<longrightarrow> bus_wf_since w (snd y))
   \<and> (\<forall>y. QSPI_PageProgram_4B p addr data size' w = Some y \<longrightarrow> bus_wf_since w (snd y))
   \<and> (size' \<noteq> 0 \<longrightarrow> bus_wf_since w (snd (snd (QSPI_Read_4B p addr data size' w))))
   \<and> (\<forall>w'. MT25Q_RunSelfTest p w = Some w' \<longrightarrow> bus_wf_since w w')"
proof (intro conjI allI impI)
  show "bus_wf_since w (snd (QSPI_SendSimple p instruction w))"
    by (rule QSPI_SendSimple_wf)
  show "bus_wf_since w (snd (snd (QSPI_ReadStatus p sr w)))"
    by (rule QSPI_ReadStatus_wf)
  show "bus_wf_since w (snd (snd (QSPI_ReadID p id' w)))"
    by (rule QSPI_ReadID_wf)
  show "bus_wf_since w (snd y)" if "QSPI_WaitWhileBusy p timeout_ms w = Some y" for y
    using that by (rule QSPI_WaitWhileBusy_wf)
  show "bus_wf_since w (snd y)" if "QSPI_WriteEnable p w = Some y" for y
    using that by (rule QSPI_WriteEnable_wf)
  show "bus_wf_since w (snd y)" if "QSPI_Enable4ByteAddressing p w = Some y" for y
    using that by (rule QSPI_Enable4ByteAddressing_wf)
  show "bus_wf_since w (snd y)" if "QSPI_Erase4K_4B p addr w = Some y" for y
    using that by (rule QSPI_Erase4K_4B_wf)
  show "bus_wf_since w (snd y)" if "QSPI_PageProgram_4B p addr data size' w = Some y" for y
    using that by (rule QSPI_PageProgram_4B_wf)
  show "bus_wf_since w (snd (snd (QSPI_Read_4B p addr data size' w)))" if "size' \<noteq> 0"
    using that by (rule QSPI_Read_4B_wf)
  show "bus_wf_since w w'" if "MT25Q_RunSelfTest p w = Some w'" for w'
    using that by (rule selftest_wf)
qed

theorem issued_commands_well_formed_witness:
  "bus_wf_since (power_up 0xFF)
     (snd (the (QSPI_PageProgram_4B (sim good_knobs) TEST_ADDR [0x5A, 0xA5] 2 (power_up 0xFF))))
   \<and> bus_wf_since (power_up 0xFF)
     (snd (snd (QSPI_Read_4B (sim good_knobs) TEST_ADDR [0, 0] 2 (power_up 0xFF))))
   \<and> length (bus (snd (the (QSPI_PageProgram_4B (sim good_knobs) TEST_ADDR [0x5A, 0xA5] 2
        (power_up 0xFF))))) = 5"
proof -
  have a: "QSPI_PageProgram_4B (sim good_knobs) TEST_ADDR [0x5A, 0xA5] 2 (power_up 0xFF)
           = Some (the (QSPI_PageProgram_4B (sim good_knobs) TEST_ADDR [0x5A, 0xA5] 2
                (power_up 0xFF)))"
    by code_simp
  have n: "(2 :: u32) \<noteq> 0" by simp
  have l: "length (bus (snd (the (QSPI_PageProgram_4B (sim good_knobs) TEST_ADDR [0x5A, 0xA5] 2
        (power_up 0xFF))))) = 5"
    by code_simp
  show ?thesis
    using issued_commands_well_formed[of "power_up 0xFF" "sim good_knobs" 0 0 "[]" 0
        TEST_ADDR "[0x5A, 0xA5]" 2] a
      issued_commands_well_formed[of "power_up 0xFF" "sim good_knobs" 0 0 "[]" 0
        TEST_ADDR "[0, 0]" 2] n l
    by blast
qed

end
